theory Spec2Isabelle
  imports Complex_Main "HOL-Library.AList"
begin

section \<open>The PLEXOS parser of R2X: property table and scenario resolution\<close>

text \<open>
  The development follows \<^verbatim>\<open>src/r2x/parser/plexos.py\<close>. Exceptions are values of
  \<open>error\<close>; a function that can raise returns \<open>error + 'a\<close> with \<open>Inl\<close> the exception.
  Calls of \<^verbatim>\<open>logger.warning\<close> are values of \<open>warning\<close>, returned next to the result.
\<close>

datatype error =
    ModelError
  | AssertionError
  | KeyError
  | IndexError
  | ValueError
  | TypeError
  | ISNotStored

datatype warning =
    ModelNotFound
  | ModelMapNotFound
  | MissingRequiredFields
  | ZeroCapacity
  | MoreThanOneRow
  | FileNotFound
  | FileNotSupported
  | PartialTimeSlices
  | HourSlicesNotSupported

subsection \<open>The property table\<close>

text \<open>
  One row of \<^verbatim>\<open>self.plexos_data\<close>, with the columns of
  \<^verbatim>\<open>DEFAULT_QUERY_COLUMNS_SCHEMA\<close> in their order; the column \<^verbatim>\<open>text\<close> is
  \<open>text_col\<close>. The columns that the parser tests with \<^verbatim>\<open>is_null\<close> or reads as
  possibly absent are options (\<open>None\<close> is the null of polars); object and class
  identifiers and names come from the object tables of the export and are never null.
\<close>

record row =
  parent_class_id :: int
  parent_object_id :: int
  parent_class_name :: string
  child_class_id :: int
  child_class_name :: string
  category :: "string option"
  object_id :: int
  name :: string
  property_name :: "string option"
  property_unit :: "string option"
  property_value :: "real option"
  band :: "int option"
  date_to :: "string option"
  date_from :: "string option"
  memo :: "string option"
  text_col :: "string option"
  scenario :: "string option"

text \<open>
  A polars boolean expression evaluates on a row to true, false or null. The connectives
  \<^verbatim>\<open>&\<close>, \<^verbatim>\<open>|\<close> and \<^verbatim>\<open>~\<close> are those of Kleene's logic, and
  \<^verbatim>\<open>DataFrame.filter\<close> keeps the rows on which the expression is true.
\<close>

type_synonym expr = "row \<Rightarrow> bool option"

fun and3 :: "bool option \<Rightarrow> bool option \<Rightarrow> bool option" where
  "and3 (Some False) _ = Some False"
| "and3 _ (Some False) = Some False"
| "and3 (Some True) (Some True) = Some True"
| "and3 _ _ = None"

fun or3 :: "bool option \<Rightarrow> bool option \<Rightarrow> bool option" where
  "or3 (Some True) _ = Some True"
| "or3 _ (Some True) = Some True"
| "or3 (Some False) (Some False) = Some False"
| "or3 _ _ = None"

fun not3 :: "bool option \<Rightarrow> bool option" where
  "not3 None = None"
| "not3 (Some b) = Some (\<not> b)"

definition is_null :: "'a option \<Rightarrow> bool option" where
  "is_null x = Some (x = None)"

text \<open>\<^verbatim>\<open>is_in\<close> of a nullable column: a null cell gives null.\<close>

definition is_in :: "'a option \<Rightarrow> 'a option list \<Rightarrow> bool option" where
  "is_in x ys = (case x of None \<Rightarrow> None | Some v \<Rightarrow> Some (Some v \<in> set ys))"

definition df_filter :: "expr \<Rightarrow> row list \<Rightarrow> row list" where
  "df_filter e rows = filter (\<lambda>r. e r = Some True) rows"

subsection \<open>\<^verbatim>\<open>_get_model_data\<close>\<close>

text \<open>
  The attribute \<^verbatim>\<open>self.scenarios\<close> is \<open>None\<close> while it is not set;
  \<^verbatim>\<open>not getattr(self, "scenarios", None)\<close> holds for an unset attribute and for an
  empty list.
\<close>

definition scenario_filter :: "string list \<Rightarrow> expr" where
  "scenario_filter scs r = is_in (scenario r) (map Some scs)"

definition scenario_specific_data :: "string list \<Rightarrow> row list \<Rightarrow> expr \<Rightarrow> row list" where
  "scenario_specific_data scs plexos_data data_filter =
     df_filter (\<lambda>r. and3 (data_filter r) (scenario_filter scs r)) plexos_data"

definition base_case_filter :: "row list \<Rightarrow> expr" where
  "base_case_filter ssd r =
     or3 (is_null (scenario r))
         (or3 (not3 (or3 (Some (name r \<in> set (map name ssd)))
                         (is_in (property_name r) (map property_name ssd))))
              (is_null (property_name r)))"

definition get_model_data ::
  "string list option \<Rightarrow> row list \<Rightarrow> expr \<Rightarrow> error + row list" where
  "get_model_data scenarios plexos_data data_filter =
     (case scenarios of
        None \<Rightarrow> Inl ModelError
      | Some [] \<Rightarrow> Inl ModelError
      | Some scs \<Rightarrow>
          (let ssd = scenario_specific_data scs plexos_data data_filter in
           if ssd = []
           then Inr (df_filter (\<lambda>r. and3 (data_filter r) (is_null (scenario r))) plexos_data)
           else Inr (ssd @
                  df_filter (\<lambda>r. and3 (data_filter r) (base_case_filter ssd r)) plexos_data)))"

subsection \<open>The pivot of the entity builders\<close>

text \<open>
  \<^verbatim>\<open>pivot(index=DEFAULT_INDEX, columns="property_name", values="property_value",
  aggregate_function="first")\<close>: one output row for each distinct index, in the order of
  first occurrence, one column for each distinct property name, and in each cell the
  value of the first row of the table with that index and that property name (null when
  there is none).
\<close>

type_synonym pivot_key = "int \<times> string \<times> string option"

definition default_index :: "row \<Rightarrow> pivot_key" where
  "default_index r = (object_id r, name r, category r)"

fun first_occurrences :: "'a list \<Rightarrow> 'a list" where
  "first_occurrences [] = []"
| "first_occurrences (x # xs) = x # filter (\<lambda>y. y \<noteq> x) (first_occurrences xs)"

definition pivot_cell :: "row list \<Rightarrow> pivot_key \<Rightarrow> string option \<Rightarrow> real option" where
  "pivot_cell rows k c =
     (case find (\<lambda>r. default_index r = k \<and> property_name r = c) rows of
        None \<Rightarrow> None
      | Some r \<Rightarrow> property_value r)"

definition pivot ::
  "row list \<Rightarrow> (pivot_key \<times> (string option \<times> real option) list) list" where
  "pivot rows =
     map (\<lambda>k. (k, map (\<lambda>c. (c, pivot_cell rows k c))
                      (first_occurrences (map property_name rows))))
         (first_occurrences (map default_index rows))"

subsection \<open>\<^verbatim>\<open>_process_scenarios\<close>\<close>

text \<open>
  The database is the external collaborator \<^verbatim>\<open>PlexosSQLite\<close>; the two tables that
  \<^verbatim>\<open>_process_scenarios\<close> queries are lists of records. The first query is
  \<^verbatim>\<open>select object_id from t_object where name = ?\<close>. The second joins the
  memberships of the model with their child objects and keeps the children of the
  class \<^verbatim>\<open>ClassEnum.Scenario\<close>, whose identifier is a parameter.
\<close>

record t_object =
  obj_object_id :: int
  obj_name :: string
  obj_class_id :: int

record t_membership =
  mem_parent_object_id :: int
  mem_child_object_id :: int

record plexos_db =
  objects :: "t_object list"
  memberships :: "t_membership list"

definition query_model_id :: "plexos_db \<Rightarrow> string \<Rightarrow> int list" where
  "query_model_id db model_name =
     map obj_object_id (filter (\<lambda>obj. obj_name obj = model_name) (objects db))"

definition query_valid_scenarios :: "plexos_db \<Rightarrow> int \<Rightarrow> int \<Rightarrow> string list" where
  "query_valid_scenarios db scenario_class mid =
     concat (map (\<lambda>mem.
        map obj_name (filter (\<lambda>obj. obj_object_id obj = mem_child_object_id mem \<and>
                                     obj_class_id obj = scenario_class) (objects db)))
        (filter (\<lambda>mem. mem_parent_object_id mem = mid) (memberships db)))"

text \<open>
  The attributes that \<^verbatim>\<open>_process_scenarios\<close> sets on the parser; \<open>None\<close> is an
  attribute that is not set. The function returns the parser as it leaves it together
  with the exception it raised, or with the warnings it logged when it returned.
\<close>

record parser =
  model_id :: "int option"
  scenarios :: "string list option"

definition process_scenarios ::
  "plexos_db \<Rightarrow> int \<Rightarrow> string option \<Rightarrow> parser \<Rightarrow> (error + warning list) \<times> parser" where
  "process_scenarios db scenario_class model_name self =
     (case model_name of
        None \<Rightarrow> (Inl ModelError, self)
      | Some mname \<Rightarrow>
          (let found = query_model_id db mname in
           if length found > 1 then (Inl ModelError, self)
           else (case found of
                   [] \<Rightarrow> (Inr [ModelNotFound], self)
                 | mid # _ \<Rightarrow>
                     (let self1 = self\<lparr>model_id := Some mid\<rparr>;
                          valid_scenarios = query_valid_scenarios db scenario_class mid
                      in if valid_scenarios = [] then (Inl AssertionError, self1)
                         else (Inr [], self1\<lparr>scenarios := Some valid_scenarios\<rparr>)))))"

subsection \<open>Row predicates of the builders and rows for examples\<close>

text \<open>
  \<^verbatim>\<open>(pl.col("child_class_id") == ClassEnum.Region) & (pl.col("parent_class_id") ==
  ClassEnum.System)\<close>, the predicate of \<^verbatim>\<open>_construct_load_zones\<close> and
  \<^verbatim>\<open>_construct_load_profiles\<close>; the two class identifiers are parameters.
\<close>

definition system_regions :: "int \<Rightarrow> int \<Rightarrow> expr" where
  "system_regions region_class system_class r =
     and3 (Some (child_class_id r = region_class)) (Some (parent_class_id r = system_class))"

text \<open>
  A row of a region (class 2) under the system (class 1) with the given object
  identifier, name, property, value, text and scenario; used in the examples.
\<close>

definition region_row ::
  "int \<Rightarrow> string \<Rightarrow> string option \<Rightarrow> real option \<Rightarrow> string option \<Rightarrow> string option \<Rightarrow> row" where
  "region_row oid nm pn pv tx sc =
     \<lparr>parent_class_id = 1, parent_object_id = 1, parent_class_name = ''System'',
      child_class_id = 2, child_class_name = ''Region'', category = Some ''-'',
      object_id = oid, name = nm, property_name = pn, property_unit = Some ''MW'',
      property_value = pv, band = Some 1, date_to = None, date_from = None, memo = None,
      text_col = tx, scenario = sc\<rparr>"

section \<open>Property aggregation and the generator and battery builders\<close>

subsection \<open>Attribute values and the unit library\<close>

text \<open>
  The values that the builders keep in their dictionaries: \<^verbatim>\<open>None\<close>, a number, a
  number multiplied by a unit of the registry (a quantity), a string, a member of
  \<^verbatim>\<open>PrimeMoversType\<close>, and a nested dictionary (the extension data). A dictionary is
  an association list in insertion order; \<open>AList.update\<close> replaces the value of a key
  in place and appends a new key, as an assignment to a Python dictionary does.
\<close>

datatype 'u pvalue =
    VNone
  | VNum real
  | VQty real 'u
  | VStr string
  | VPrimeMover string
  | VDict "(string \<times> 'u pvalue) list"

type_synonym 'u bag = "(string \<times> 'u pvalue) list"

text \<open>
  The unit registry \<^verbatim>\<open>ureg\<close> is an external collaborator and a parameter of the
  model. \<open>ureg\<close> is the lookup \<^verbatim>\<open>ureg[unit]\<close>, which finds a unit, raises
  \<^verbatim>\<open>UndefinedUnitError\<close> or raises something else; \<open>qty_bool\<close>, \<open>qty_gt\<close> and
  \<open>qty_eq\<close> are the truth value of a quantity and its comparisons \<^verbatim>\<open>>\<close> and
  \<^verbatim>\<open>==\<close> with a number, where the first two may raise; \<open>unit_MW\<close> is
  \<^verbatim>\<open>ureg.MW\<close>.
\<close>

datatype 'u lookup = Found 'u | UndefinedUnitError | LookupRaises error

record 'u units =
  ureg :: "string \<Rightarrow> 'u lookup"
  qty_bool :: "real \<Rightarrow> 'u \<Rightarrow> error + bool"
  qty_gt :: "real \<Rightarrow> 'u \<Rightarrow> real \<Rightarrow> error + bool"
  qty_eq :: "real \<Rightarrow> 'u \<Rightarrow> real \<Rightarrow> bool"
  unit_MW :: 'u

text \<open>Truth value of a value, \<^verbatim>\<open>value > n\<close> and \<^verbatim>\<open>value == n\<close> for a number \<open>n\<close>.\<close>

fun py_bool :: "'u units \<Rightarrow> 'u pvalue \<Rightarrow> error + bool" where
  "py_bool lib VNone = Inr False"
| "py_bool lib (VNum x) = Inr (x \<noteq> 0)"
| "py_bool lib (VQty x u) = qty_bool lib x u"
| "py_bool lib (VStr s) = Inr (s \<noteq> [])"
| "py_bool lib (VPrimeMover p) = Inr True"
| "py_bool lib (VDict d) = Inr (d \<noteq> [])"

fun py_gt :: "'u units \<Rightarrow> 'u pvalue \<Rightarrow> real \<Rightarrow> error + bool" where
  "py_gt lib (VNum x) n = Inr (x > n)"
| "py_gt lib (VQty x u) n = qty_gt lib x u n"
| "py_gt lib _ n = Inl TypeError"

fun py_eq :: "'u units \<Rightarrow> 'u pvalue \<Rightarrow> real \<Rightarrow> bool" where
  "py_eq lib (VNum x) n = (x = n)"
| "py_eq lib (VQty x u) n = qty_eq lib x u n"
| "py_eq lib _ n = False"

subsection \<open>Decimal numerals\<close>

text \<open>\<^verbatim>\<open>str\<close> of an integer, as the f-string \<^verbatim>\<open>f"{mapped_property_name}_{band}"\<close> formats it.\<close>

definition digit_char :: "nat \<Rightarrow> char" where
  "digit_char d = ''0123456789'' ! d"

function string_of_nat :: "nat \<Rightarrow> string" where
  "string_of_nat n =
     (if n < 10 then [digit_char n] else string_of_nat (n div 10) @ [digit_char (n mod 10)])"
  by pat_completeness auto
termination
  by (relation "measure id") auto

declare string_of_nat.simps [simp del]

definition string_of_int :: "int \<Rightarrow> string" where
  "string_of_int i =
     (if i < 0 then CHR ''-'' # string_of_nat (nat (- i)) else string_of_nat (nat i))"

subsection \<open>\<^verbatim>\<open>_parse_property_data\<close>\<close>

text \<open>
  A property record is one row of an object projected by \<^verbatim>\<open>to_dicts\<close> on the
  columns \<^verbatim>\<open>band\<close>, \<^verbatim>\<open>property_name\<close>, \<^verbatim>\<open>property_value\<close> and
  \<^verbatim>\<open>property_unit\<close>; the cells of a property row are not null. \<open>property_map\<close> is \<^verbatim>\<open>self.property_map\<close>, the inverted
  \<^verbatim>\<open>plexos_property_map\<close> of the configuration, from PLEXOS property names to field
  names.
\<close>

record prop_record =
  rec_band :: int
  rec_property_name :: string
  rec_property_value :: real
  rec_property_unit :: string

definition replace_dollar :: "string \<Rightarrow> string" where
  "replace_dollar s = concat (map (\<lambda>c. if c = CHR ''$'' then ''usd'' else [c]) s)"

text \<open>
  The unit of a record: \<open>Inr None\<close> when the unit string is \<^verbatim>\<open>"-"\<close> or empty and
  when the registry does not know it. A unit that the registry finds is true in the
  test \<^verbatim>\<open>if unit\<close>.
\<close>

definition resolve_unit :: "'u units \<Rightarrow> string \<Rightarrow> error + 'u option" where
  "resolve_unit lib unit_str =
     (let unit = replace_dollar unit_str in
      if unit = ''-'' \<or> unit = [] then Inr None
      else (case ureg lib unit of
              Found u \<Rightarrow> Inr (Some u)
            | UndefinedUnitError \<Rightarrow> Inr None
            | LookupRaises e \<Rightarrow> Inl e))"

text \<open>
  \<^verbatim>\<open>value = prop_value * unit if unit else prop_value\<close>, which the three branches
  of the loop compute alike from the record.
\<close>

definition record_value :: "'u units \<Rightarrow> prop_record \<Rightarrow> error + 'u pvalue" where
  "record_value lib record =
     (case resolve_unit lib (rec_property_unit record) of
        Inl e \<Rightarrow> Inl e
      | Inr None \<Rightarrow> Inr (VNum (rec_property_value record))
      | Inr (Some u) \<Rightarrow> Inr (VQty (rec_property_value record) u))"

record 'u parse_state =
  mapped_properties :: "'u bag"
  property_counts :: "(string \<times> int set) list"
  multi_band_properties :: "string set"

text \<open>
  The body of the loop. The test of the first branch looks the PLEXOS name
  \<^verbatim>\<open>prop_name\<close> up in \<^verbatim>\<open>property_counts\<close>, whose keys are mapped names;
  \<^verbatim>\<open>property_counts[mapped_property_name]\<close> in the other branch raises
  \<^verbatim>\<open>KeyError\<close> when the mapped name is not a key.
\<close>

definition parse_record ::
  "'u units \<Rightarrow> (string \<rightharpoonup> string) \<Rightarrow> 'u parse_state \<Rightarrow> prop_record \<Rightarrow> error + 'u parse_state"
where
  "parse_record lib property_map st record =
     (let band = rec_band record;
          prop_name = rec_property_name record;
          mapped_property_name =
            (case property_map prop_name of Some m \<Rightarrow> m | None \<Rightarrow> prop_name)
      in case record_value lib record of
           Inl e \<Rightarrow> Inl e
         | Inr val \<Rightarrow>
             if map_of (property_counts st) prop_name = None
             then Inr (st\<lparr>mapped_properties :=
                            AList.update mapped_property_name val (mapped_properties st),
                          property_counts :=
                            AList.update mapped_property_name {band} (property_counts st)\<rparr>)
             else (case map_of (property_counts st) mapped_property_name of
                     None \<Rightarrow> Inl KeyError
                   | Some bands \<Rightarrow>
                       if band \<notin> bands
                       then Inr (st\<lparr>mapped_properties :=
                                      AList.update
                                        (mapped_property_name @ ''_'' @ string_of_int band)
                                        val (mapped_properties st),
                                    property_counts :=
                                      AList.update mapped_property_name (insert band bands)
                                        (property_counts st),
                                    multi_band_properties :=
                                      insert mapped_property_name
                                        (multi_band_properties st)\<rparr>)
                       else Inr (st\<lparr>mapped_properties :=
                                      AList.update mapped_property_name val
                                        (mapped_properties st)\<rparr>)))"

fun parse_records ::
  "'u units \<Rightarrow> (string \<rightharpoonup> string) \<Rightarrow> 'u parse_state \<Rightarrow> prop_record list \<Rightarrow>
   error + 'u parse_state"
where
  "parse_records lib property_map st [] = Inr st"
| "parse_records lib property_map st (record # record_data) =
     (case parse_record lib property_map st record of
        Inl e \<Rightarrow> Inl e
      | Inr st' \<Rightarrow> parse_records lib property_map st' record_data)"

definition parse_property_data ::
  "'u units \<Rightarrow> (string \<rightharpoonup> string) \<Rightarrow> prop_record list \<Rightarrow> error + ('u bag \<times> string set)"
where
  "parse_property_data lib property_map record_data =
     (case parse_records lib property_map
             \<lparr>mapped_properties = [], property_counts = [], multi_band_properties = {}\<rparr>
             record_data of
        Inl e \<Rightarrow> Inl e
      | Inr st \<Rightarrow> Inr (mapped_properties st, multi_band_properties st))"

subsection \<open>Fields, extension data and the clamp of \<^verbatim>\<open>available\<close>\<close>

text \<open>
  The classes of \<^verbatim>\<open>r2x.model\<close> are parameters: a class is the list of its
  \<^verbatim>\<open>model_fields\<close>, each with the answer of \<^verbatim>\<open>is_required()\<close>. The entity that a
  builder constructs is the dictionary of keyword arguments that it passes to the class;
  the validation of the arguments by the class belongs to the schema library.
\<close>

type_synonym model_fields = "(string \<times> bool) list"

definition required_fields :: "model_fields \<Rightarrow> string list" where
  "required_fields flds = map fst (filter snd flds)"

definition is_field :: "model_fields \<Rightarrow> string \<Rightarrow> bool" where
  "is_field flds k = (k \<in> set (map fst flds))"

definition has_key :: "'u bag \<Rightarrow> string \<Rightarrow> bool" where
  "has_key d k = (map_of d k \<noteq> None)"

text \<open>
  The part that the generator builder and the battery builder share word for word: the
  two dictionary comprehensions, the clamp of \<^verbatim>\<open>available\<close>, the extension data and
  the check of the required fields. The result is \<open>None\<close> when a required field is
  missing (the builder then logs a warning and continues with the next object).
\<close>

definition clamp_available :: "'u units \<Rightarrow> 'u bag \<Rightarrow> error + 'u bag" where
  "clamp_available lib valid_fields =
     (case map_of valid_fields ''available'' of
        None \<Rightarrow> Inr valid_fields
      | Some available \<Rightarrow>
          (case py_bool lib available of
             Inl e \<Rightarrow> Inl e
           | Inr False \<Rightarrow> Inr valid_fields
           | Inr True \<Rightarrow>
               (case py_gt lib available 1 of
                  Inl e \<Rightarrow> Inl e
                | Inr True \<Rightarrow> Inr (AList.update ''available'' (VNum 1) valid_fields)
                | Inr False \<Rightarrow> Inr valid_fields)))"

definition entity_fields ::
  "'u units \<Rightarrow> model_fields \<Rightarrow> 'u bag \<Rightarrow> error + 'u bag option" where
  "entity_fields lib flds mapped_records =
     (let valid_fields =
            filter (\<lambda>(k, v). is_field flds k \<and> v \<noteq> VNone) mapped_records;
          ext_data =
            filter (\<lambda>(k, v). \<not> is_field flds k \<and> v \<noteq> VNone) mapped_records
      in case clamp_available lib valid_fields of
           Inl e \<Rightarrow> Inl e
         | Inr clamped \<Rightarrow>
             (let valid_fields' =
                    (if ext_data \<noteq> [] then AList.update ''ext'' (VDict ext_data) clamped
                     else clamped)
              in if \<not> list_all (has_key valid_fields') (required_fields flds)
                 then Inr None
                 else Inr (Some valid_fields')))"

text \<open>
  What a builder does with one object: it adds an entity of a class with keyword
  arguments, or it skips the object with a warning.
\<close>

datatype 'u built = Added string "'u bag" | Skipped warning

subsection \<open>\<^verbatim>\<open>_construct_batteries\<close>\<close>

text \<open>
  The body of the loop for one battery: its name and its property records.
  \<open>battery_fields\<close> is \<^verbatim>\<open>GenericBattery.model_fields\<close>; \<open>battery_records\<close> is
  \<^verbatim>\<open>mapped_records\<close> after the assignments that follow the aggregation.
\<close>

definition battery_records :: "string \<Rightarrow> 'u bag \<Rightarrow> 'u bag" where
  "battery_records battery_name parsed =
     (let m1 = AList.update ''name'' (VStr battery_name) parsed;
          m2 = (case map_of m1 ''Max Power'' of
                  Some v \<Rightarrow> AList.update ''base_power'' v m1 | None \<Rightarrow> m1);
          m3 = (case map_of m2 ''Capacity'' of
                  Some v \<Rightarrow> AList.update ''storage_capacity'' v m2 | None \<Rightarrow> m2)
      in AList.update ''prime_mover_type'' (VPrimeMover ''BA'') m3)"

definition construct_battery ::
  "'u units \<Rightarrow> (string \<rightharpoonup> string) \<Rightarrow> model_fields \<Rightarrow> string \<Rightarrow> prop_record list \<Rightarrow>
   error + 'u built"
where
  "construct_battery lib property_map battery_fields battery_name property_records =
     (case parse_property_data lib property_map property_records of
        Inl e \<Rightarrow> Inl e
      | Inr (parsed, _) \<Rightarrow>
          (let mapped_records = battery_records battery_name parsed
           in case entity_fields lib battery_fields mapped_records of
                Inl e \<Rightarrow> Inl e
              | Inr None \<Rightarrow> Inr (Skipped MissingRequiredFields)
              | Inr (Some valid_fields) \<Rightarrow>
                  (case map_of mapped_records ''storage_capacity'' of
                     None \<Rightarrow> Inl KeyError
                   | Some capacity \<Rightarrow>
                       if py_eq lib capacity 0 then Inr (Skipped ZeroCapacity)
                       else Inr (Added ''GenericBattery'' valid_fields))))"

subsection \<open>\<^verbatim>\<open>_construct_generators\<close>\<close>

text \<open>
  The tables of \<^verbatim>\<open>self.config.defaults\<close> and the module \<^verbatim>\<open>r2x.model\<close> are
  parameters: \<open>model_map\<close> from fuel names and \<open>generator_map\<close> from generator names
  to class names, \<open>r2x_models\<close> from class names to classes
  (\<^verbatim>\<open>getattr(R2X_MODELS, model_map, None)\<close>), \<open>prime_mover_map\<close> the table
  \<^verbatim>\<open>tech_fuel_pm_map\<close>, and \<open>prime_movers\<close> the member names of
  \<^verbatim>\<open>PrimeMoversType\<close>.
\<close>

record defaults =
  model_map :: "string \<rightharpoonup> string"
  generator_map :: "string \<rightharpoonup> string"
  r2x_models :: "string \<rightharpoonup> model_fields"
  prime_mover_map :: "string \<rightharpoonup> (string \<rightharpoonup> string)"
  prime_movers :: "string list"

definition get_or_empty :: "(string \<rightharpoonup> string) \<Rightarrow> string option \<Rightarrow> string" where
  "get_or_empty d k =
     (case k of None \<Rightarrow> [] | Some key \<Rightarrow> (case d key of None \<Rightarrow> [] | Some v \<Rightarrow> v))"

text \<open>
  \<^verbatim>\<open>self.prime_mover_map[fuel].get(key) if fuel in self.prime_mover_map.keys() else
  self.prime_mover_map["default"].get(key)\<close>
\<close>

definition prime_mover_entry ::
  "defaults \<Rightarrow> string option \<Rightarrow> string \<Rightarrow> error + string option" where
  "prime_mover_entry cfg generator_fuel_type key =
     (case (case generator_fuel_type of
              None \<Rightarrow> None | Some fuel \<Rightarrow> prime_mover_map cfg fuel) of
        Some entry \<Rightarrow> Inr (entry key)
      | None \<Rightarrow>
          (case prime_mover_map cfg ''default'' of
             None \<Rightarrow> Inl KeyError
           | Some entry \<Rightarrow> Inr (entry key)))"

text \<open>
  The keys that the builder sets between the aggregation and the comprehensions. The
  \<^verbatim>\<open>match\<close> statement has the class pattern \<^verbatim>\<open>HydroPumpedStorage()\<close> and its
  subject is a class, not an instance of it, so its case is never taken.
\<close>

definition generator_records ::
  "defaults \<Rightarrow> string \<Rightarrow> string option \<Rightarrow> 'u bag \<Rightarrow> error + 'u bag" where
  "generator_records cfg generator_name generator_fuel_type parsed =
     (let m1 = AList.update ''name'' (VStr generator_name) parsed
      in case prime_mover_entry cfg generator_fuel_type ''type'' of
           Inl e \<Rightarrow> Inl e
         | Inr None \<Rightarrow> Inl KeyError
         | Inr (Some pm) \<Rightarrow>
             if pm \<notin> set (prime_movers cfg) then Inl KeyError
             else (let m2 = AList.update ''prime_mover_type'' (VPrimeMover pm) m1
                   in case prime_mover_entry cfg generator_fuel_type ''fuel'' of
                        Inl e \<Rightarrow> Inl e
                      | Inr fuel \<Rightarrow>
                          (let m3 = AList.update ''fuel''
                                      (case fuel of None \<Rightarrow> VNone | Some f \<Rightarrow> VStr f) m2
                           in Inr (case (map_of m3 ''base_power'', map_of m3 ''pump_load'') of
                                     (None, Some v) \<Rightarrow> AList.update ''base_power'' v m3
                                   | _ \<Rightarrow> m3))))"

definition construct_generator ::
  "'u units \<Rightarrow> defaults \<Rightarrow> (string \<rightharpoonup> string) \<Rightarrow> string \<Rightarrow> string option \<Rightarrow>
   prop_record list \<Rightarrow> error + 'u built"
where
  "construct_generator lib cfg property_map generator_name generator_fuel_type
       property_records =
     (let a = get_or_empty (model_map cfg) generator_fuel_type;
          model_name =
            (if a \<noteq> [] then a else get_or_empty (generator_map cfg) (Some generator_name))
      in case r2x_models cfg model_name of
           None \<Rightarrow> Inr (Skipped ModelMapNotFound)
         | Some flds \<Rightarrow>
             (case parse_property_data lib property_map property_records of
                Inl e \<Rightarrow> Inl e
              | Inr (parsed, multi_band_records) \<Rightarrow>
                  (case generator_records cfg generator_name generator_fuel_type parsed of
                     Inl e \<Rightarrow> Inl e
                   | Inr mapped_records \<Rightarrow>
                       (case entity_fields lib flds mapped_records of
                          Inl e \<Rightarrow> Inl e
                        | Inr None \<Rightarrow> Inr (Skipped MissingRequiredFields)
                        | Inr (Some valid_fields) \<Rightarrow> Inr (Added model_name valid_fields)))))"

subsection \<open>The system and the loops of the two builders\<close>

text \<open>
  The system holds the entities in the order in which they were added, each as its class
  name and keyword arguments, and the time series attached to entities. The groups are
  those of \<^verbatim>\<open>group_by("name")\<close>, in the order in which the run yields them (polars
  does not fix it): the name of an object with the property records of its rows. A loop stops at the first exception; a skipped object leaves the system as
  it was and adds its warning to the log.
\<close>

record time_series =
  ts_data :: "real list"
  ts_variable_name :: string
  ts_initial_time :: "int \<times> int \<times> int"
  ts_resolution_hours :: nat

record 'u system =
  components :: "(string \<times> 'u bag) list"
  attached_series :: "(string \<times> time_series \<times> int) list"

definition add_component :: "string \<Rightarrow> 'u bag \<Rightarrow> 'u system \<Rightarrow> 'u system" where
  "add_component cls kwargs sys = sys\<lparr>components := components sys @ [(cls, kwargs)]\<rparr>"

definition register :: "'u built \<Rightarrow> 'u system \<times> warning list \<Rightarrow> 'u system \<times> warning list"
where
  "register b st =
     (case b of
        Added cls kwargs \<Rightarrow> (add_component cls kwargs (fst st), snd st)
      | Skipped w \<Rightarrow> (fst st, snd st @ [w]))"

fun construct_batteries ::
  "'u units \<Rightarrow> (string \<rightharpoonup> string) \<Rightarrow> model_fields \<Rightarrow> (string \<times> prop_record list) list \<Rightarrow>
   'u system \<times> warning list \<Rightarrow> error + 'u system \<times> warning list"
where
  "construct_batteries lib property_map battery_fields [] st = Inr st"
| "construct_batteries lib property_map battery_fields ((battery_name, recs) # groups) st =
     (case construct_battery lib property_map battery_fields battery_name recs of
        Inl e \<Rightarrow> Inl e
      | Inr b \<Rightarrow> construct_batteries lib property_map battery_fields groups (register b st))"

fun construct_generators ::
  "'u units \<Rightarrow> defaults \<Rightarrow> (string \<rightharpoonup> string) \<Rightarrow> (string \<rightharpoonup> string) \<Rightarrow>
   (string \<times> prop_record list) list \<Rightarrow> 'u system \<times> warning list \<Rightarrow>
   error + 'u system \<times> warning list"
where
  "construct_generators lib cfg property_map generator_fuel_map [] st = Inr st"
| "construct_generators lib cfg property_map generator_fuel_map
       ((generator_name, recs) # groups) st =
     (case construct_generator lib cfg property_map generator_name
             (generator_fuel_map generator_name) recs of
        Inl e \<Rightarrow> Inl e
      | Inr b \<Rightarrow>
          construct_generators lib cfg property_map generator_fuel_map groups (register b st))"

text \<open>A unit library for the examples: every unit string is a unit.\<close>

definition example_units :: "string units" where
  "example_units =
     \<lparr>ureg = Found, qty_bool = (\<lambda>x u. Inr (x \<noteq> 0)), qty_gt = (\<lambda>x u n. Inl ValueError),
      qty_eq = (\<lambda>x u n. x = n), unit_MW = ''MW''\<rparr>"

section \<open>Time series\<close>

subsection \<open>\<^verbatim>\<open>_csv_file_handler\<close>\<close>

text \<open>
  The files of the run folder are a parameter. \<open>read_csv\<close> is \<^verbatim>\<open>pl.read_csv\<close> at
  the path that the handler builds from the run folder and the text of the first row:
  there is no such file, or the reader raises something else, or it returns the data
  of the file. \<open>series_of_file\<close> is the rest of the handler, from the lower-casing of the
  data to \<^verbatim>\<open>SingleTimeSeries.from_array\<close>, for the weather year and the property
  name (\<^verbatim>\<open>variable_name\<close> in the handler); it works on a file that was read.
\<close>

datatype 'f read_result = FileNotFoundError | ReadRaises error | FileData 'f

record 'f files =
  read_csv :: "string \<Rightarrow> 'f read_result"
  series_of_file :: "'f \<Rightarrow> int \<Rightarrow> string \<Rightarrow> error + time_series option \<times> warning list"

definition csv_file_handler ::
  "'f files \<Rightarrow> int \<Rightarrow> string \<Rightarrow> row list \<Rightarrow> error + time_series option \<times> warning list"
where
  "csv_file_handler fs weather_year variable_name property_data =
     (let ws = (if length property_data \<noteq> 1 then [MoreThanOneRow] else [])
      in case property_data of
           [] \<Rightarrow> Inl IndexError
         | r # _ \<Rightarrow>
             (case text_col r of
                None \<Rightarrow> Inl TypeError
              | Some fpath_text \<Rightarrow>
                  (case read_csv fs fpath_text of
                     FileNotFoundError \<Rightarrow> Inr (None, ws @ [FileNotFound])
                   | ReadRaises e \<Rightarrow> Inl e
                   | FileData data_file \<Rightarrow>
                       (case series_of_file fs data_file weather_year variable_name of
                          Inl e \<Rightarrow> Inl e
                        | Inr (ts, ws') \<Rightarrow> Inr (ts, ws @ ws')))))"

subsection \<open>\<^verbatim>\<open>_time_slice_handler\<close>\<close>

text \<open>
  \<^verbatim>\<open>str.strip(chars)\<close>, and \<^verbatim>\<open>int\<close> of a string: surrounding white space, an
  optional sign, and decimal digits with single underscores between them.
\<close>

definition py_strip :: "string \<Rightarrow> string \<Rightarrow> string" where
  "py_strip chars s =
     rev (dropWhile (\<lambda>c. c \<in> set chars) (rev (dropWhile (\<lambda>c. c \<in> set chars) s)))"

definition whitespace :: string where
  "whitespace =
     [CHR '' '', CHR 0x09, CHR 0x0A, CHR 0x0B, CHR 0x0C, CHR 0x0D,
      CHR 0x1C, CHR 0x1D, CHR 0x1E, CHR 0x1F]"

fun digits_value :: "string \<Rightarrow> nat \<Rightarrow> nat option" where
  "digits_value [] acc = Some acc"
| "digits_value (c # cs) acc =
     (case find (\<lambda>d. digit_char d = c) [0, 1, 2, 3, 4, 5, 6, 7, 8, 9] of
        None \<Rightarrow> None
      | Some d \<Rightarrow> digits_value cs (10 * acc + d))"

fun single_underscores :: "string \<Rightarrow> bool" where
  "single_underscores (a # b # cs) =
     (\<not> (a = CHR ''_'' \<and> b = CHR ''_'') \<and> single_underscores (b # cs))"
| "single_underscores _ = True"

definition py_int :: "string \<Rightarrow> error + int" where
  "py_int s =
     (let t = py_strip whitespace s;
          negative = (t \<noteq> [] \<and> hd t = CHR ''-'');
          body = (if t \<noteq> [] \<and> (hd t = CHR ''-'' \<or> hd t = CHR ''+'') then tl t else t)
      in if body = [] \<or> hd body = CHR ''_'' \<or> last body = CHR ''_'' \<or>
            \<not> single_underscores body
         then Inl ValueError
         else (case digits_value (filter (\<lambda>c. c \<noteq> CHR ''_'') body) 0 of
                 None \<Rightarrow> Inl ValueError
               | Some n \<Rightarrow> Inr (if negative then - int n else int n)))"

text \<open>
  The array \<^verbatim>\<open>months\<close>: the month number of every hour from the first hour of the
  weather year to the last, in order (the calendar of \<^verbatim>\<open>datetime64\<close> is the
  proleptic Gregorian one).
\<close>

definition is_leap_year :: "int \<Rightarrow> bool" where
  "is_leap_year y = (y mod 4 = 0 \<and> (y mod 100 \<noteq> 0 \<or> y mod 400 = 0))"

definition days_in_month :: "int \<Rightarrow> int \<Rightarrow> nat" where
  "days_in_month y m =
     (if m = 2 then (if is_leap_year y then 29 else 28)
      else if m = 4 \<or> m = 6 \<or> m = 9 \<or> m = 11 then 30 else 31)"

definition hour_months :: "int \<Rightarrow> int list" where
  "hour_months y =
     concat (map (\<lambda>m. replicate (24 * days_in_month y m) m)
               [1, 2, 3, 4, 5, 6, 7, 8, 9, 10, 11, 12])"

text \<open>
  The records are \<^verbatim>\<open>property_data[["text", "property_value"]].to_dicts()\<close>, one for
  each row; \<open>set_month\<close> is the assignment
  \<^verbatim>\<open>month_datetime_series[np.where(months == month)] = value\<close>.
\<close>

record slice_record =
  slice_text :: string
  slice_value :: real

definition set_month :: "int list \<Rightarrow> int \<Rightarrow> real \<Rightarrow> real list \<Rightarrow> real list" where
  "set_month months month v series =
     map (\<lambda>(m, x). if m = month then v else x) (zip months series)"

fun fill_months :: "int list \<Rightarrow> slice_record list \<Rightarrow> real list \<Rightarrow> error + real list" where
  "fill_months months [] series = Inr series"
| "fill_months months (record # property_records) series =
     (case py_int (py_strip ''M'' (slice_text record)) of
        Inl e \<Rightarrow> Inl e
      | Inr month \<Rightarrow>
          fill_months months property_records
            (set_month months month (slice_value record) series))"

text \<open>
  \<^verbatim>\<open>datetime(self.weather_year, 1, 1)\<close> raises \<^verbatim>\<open>ValueError\<close> outside the years 1
  to 9999.
\<close>

definition time_slice_handler ::
  "int \<Rightarrow> string \<Rightarrow> slice_record list \<Rightarrow> error + time_series option \<times> warning list"
where
  "time_slice_handler weather_year variable_name property_data =
     (if weather_year < 1 \<or> 9999 < weather_year then Inl ValueError
      else (let months = hour_months weather_year;
                month_datetime_series = replicate (length months) 0
            in if length property_data \<noteq> 12 then Inr (None, [PartialTimeSlices])
               else (case fill_months months property_data month_datetime_series of
                       Inl e \<Rightarrow> Inl e
                     | Inr series \<Rightarrow>
                         Inr (Some \<lparr>ts_data = series, ts_variable_name = variable_name,
                                    ts_initial_time = (weather_year, 1, 1),
                                    ts_resolution_hours = 1\<rparr>, []))))"

subsection \<open>\<^verbatim>\<open>_construct_load_profiles\<close>\<close>

text \<open>
  The groups of \<^verbatim>\<open>group_by("name")\<close>, each with its rows in the order of the table.
  Polars does not fix the order of the groups (the call has no \<^verbatim>\<open>maintain_order\<close>), so
  the order is a parameter: \<open>group_order\<close> is the permutation that one run applies to the
  names in their order of first occurrence.
\<close>

definition group_by_name ::
  "(string list \<Rightarrow> string list) \<Rightarrow> row list \<Rightarrow> (string \<times> row list) list" where
  "group_by_name group_order rows =
     map (\<lambda>n. (n, filter (\<lambda>r. name r = n) rows))
         (group_order (first_occurrences (map name rows)))"

definition get_component :: "'u system \<Rightarrow> string \<Rightarrow> string \<Rightarrow> error + 'u bag" where
  "get_component sys cls nm =
     (case find (\<lambda>(c, kwargs). c = cls \<and> map_of kwargs ''name'' = Some (VStr nm))
             (components sys) of
        None \<Rightarrow> Inl ISNotStored
      | Some (c, kwargs) \<Rightarrow> Inr kwargs)"

definition add_time_series :: "time_series \<Rightarrow> string \<Rightarrow> int \<Rightarrow> 'u system \<Rightarrow> 'u system" where
  "add_time_series ts owner solve_year sys =
     sys\<lparr>attached_series := attached_series sys @ [(owner, ts, solve_year)]\<rparr>"

text \<open>
  The loop over the buses of a region: \<open>buses\<close> are the bus names of the memberships
  that \<^verbatim>\<open>self.db.get_memberships\<close> returns for the region, \<open>share\<close> is
  \<^verbatim>\<open>max_load / len(bus_region_membership)\<close>.
\<close>

fun add_loads ::
  "'u units \<Rightarrow> int \<Rightarrow> time_series \<Rightarrow> real \<Rightarrow> string list \<Rightarrow> 'u system \<Rightarrow> error + 'u system"
where
  "add_loads lib weather_year ts share [] sys = Inr sys"
| "add_loads lib weather_year ts share (bus # buses) sys =
     (case get_component sys ''ACBus'' bus of
        Inl e \<Rightarrow> Inl e
      | Inr _ \<Rightarrow>
          add_loads lib weather_year ts share buses
            (add_time_series ts bus weather_year
               (add_component ''PowerLoad''
                  [(''name'', VStr bus), (''bus'', VStr bus),
                   (''max_active_power'', VQty share (unit_MW lib))] sys)))"

text \<open>The body of the loop over the regions, for one region and its rows.\<close>

fun load_profile ::
  "'u units \<Rightarrow> 'f files \<Rightarrow> (string \<Rightarrow> string list) \<Rightarrow> int \<Rightarrow> string \<times> row list \<Rightarrow>
   'u system \<times> warning list \<Rightarrow> error + 'u system \<times> warning list"
where
  "load_profile lib fs nodes_region weather_year (region, region_data) st =
     (case csv_file_handler fs weather_year ''max_active_power'' region_data of
        Inl e \<Rightarrow> Inl e
      | Inr (None, ws) \<Rightarrow> Inr (fst st, snd st @ ws)
      | Inr (Some ts, ws) \<Rightarrow>
          (case ts_data ts of
             [] \<Rightarrow> Inl ValueError
           | x # xs \<Rightarrow>
               (let max_load = fold max xs x;
                    bus_region_membership = nodes_region region
                in case add_loads lib weather_year ts
                          (max_load / real (length bus_region_membership))
                          bus_region_membership (fst st) of
                     Inl e \<Rightarrow> Inl e
                   | Inr sys \<Rightarrow> Inr (sys, snd st @ ws))))"

fun load_profiles ::
  "'u units \<Rightarrow> 'f files \<Rightarrow> (string \<Rightarrow> string list) \<Rightarrow> int \<Rightarrow> (string \<times> row list) list \<Rightarrow>
   'u system \<times> warning list \<Rightarrow> error + 'u system \<times> warning list"
where
  "load_profiles lib fs nodes_region weather_year [] st = Inr st"
| "load_profiles lib fs nodes_region weather_year (region_group # groups) st =
     (case load_profile lib fs nodes_region weather_year region_group st of
        Inl e \<Rightarrow> Inl e
      | Inr st' \<Rightarrow> load_profiles lib fs nodes_region weather_year groups st')"

definition construct_load_profiles ::
  "'u units \<Rightarrow> 'f files \<Rightarrow> (string \<Rightarrow> string list) \<Rightarrow> (string list \<Rightarrow> string list) \<Rightarrow>
   int \<Rightarrow> int \<Rightarrow> int \<Rightarrow> string list option \<Rightarrow> row list \<Rightarrow> 'u system \<times> warning list \<Rightarrow>
   error + 'u system \<times> warning list"
where
  "construct_load_profiles lib fs nodes_region group_order region_class system_class
       weather_year scs plexos_data st =
     (case get_model_data scs plexos_data (system_regions region_class system_class) of
        Inl e \<Rightarrow> Inl e
      | Inr rows \<Rightarrow>
          load_profiles lib fs nodes_region weather_year
            (group_by_name group_order
               (df_filter (\<lambda>r. not3 (is_null (text_col r))) rows)) st)"

text \<open>
  For the examples: a run folder without files, regions with the single bus N1, and the
  twelve rows of region R1 whose texts are the month codes M1 to M12, month \<open>m\<close> with
  the value \<open>100 m\<close>.
\<close>

definition no_files :: "unit files" where
  "no_files =
     \<lparr>read_csv = (\<lambda>path. FileNotFoundError), series_of_file = (\<lambda>f y p. Inr (None, []))\<rparr>"

text \<open>
  A run folder whose only file is \<^verbatim>\<open>data/load.csv\<close>, read as a series of two hours.
\<close>

definition load_file_only :: "unit files" where
  "load_file_only =
     \<lparr>read_csv = (\<lambda>path. if path = ''data/load.csv'' then FileData () else FileNotFoundError),
      series_of_file =
        (\<lambda>f y p. Inr (Some \<lparr>ts_data = [30, 40], ts_variable_name = p,
                             ts_initial_time = (y, 1, 1), ts_resolution_hours = 1\<rparr>, []))\<rparr>"

definition one_node :: "string \<Rightarrow> string list" where
  "one_node region = [''N1'']"

definition month_rows :: "row list" where
  "month_rows =
     map (\<lambda>m. region_row 7 ''R1'' (Some ''Load'') (Some (100 * real_of_int m))
                 (Some (''M'' @ string_of_int m)) None)
         [1, 2, 3, 4, 5, 6, 7, 8, 9, 10, 11, 12]"

definition month_records :: "slice_record list" where
  "month_records =
     map (\<lambda>m. \<lparr>slice_text = ''M'' @ string_of_int m, slice_value = 100 * real_of_int m\<rparr>)
         [1, 2, 3, 4, 5, 6, 7, 8, 9, 10, 11, 12]"

text \<open>
  A configuration for the examples: generators burning gas are of a class with an
  optional field \<^verbatim>\<open>available\<close>, the property map renames \<^verbatim>\<open>Units\<close> to
  \<^verbatim>\<open>available\<close> and \<^verbatim>\<open>Max Capacity\<close> to \<^verbatim>\<open>base_power\<close>, and the battery
  class requires a name, a base power, a storage capacity and a prime mover.
\<close>

definition example_defaults :: defaults where
  "example_defaults =
     \<lparr>model_map = [''Gas'' \<mapsto> ''ThermalStandard''],
      generator_map = Map.empty,
      r2x_models = [''ThermalStandard'' \<mapsto>
         [(''name'', True), (''available'', False), (''base_power'', False),
          (''prime_mover_type'', False), (''fuel'', False), (''ext'', False)]],
      prime_mover_map = [''default'' \<mapsto> [''type'' \<mapsto> ''OT'', ''fuel'' \<mapsto> ''OTHER'']],
      prime_movers = [''BA'', ''OT'', ''PS'']\<rparr>"

definition example_property_map :: "string \<rightharpoonup> string" where
  "example_property_map = [''Units'' \<mapsto> ''available'', ''Max Capacity'' \<mapsto> ''base_power'']"

definition example_battery_fields :: model_fields where
  "example_battery_fields =
     [(''name'', True), (''available'', False), (''base_power'', True),
      (''storage_capacity'', True), (''prime_mover_type'', True), (''ext'', False)]"

definition prop_rec :: "string \<Rightarrow> real \<Rightarrow> int \<Rightarrow> prop_record" where
  "prop_rec pn pv b =
     \<lparr>rec_band = b, rec_property_name = pn, rec_property_value = pv,
      rec_property_unit = ''-''\<rparr>"

section \<open>Properties of scenario resolution\<close>

lemma and3_True: "and3 a b = Some True \<longleftrightarrow> a = Some True \<and> b = Some True"
  by (cases "(a, b)" rule: and3.cases) auto

lemma or3_True: "or3 a b = Some True \<longleftrightarrow> a = Some True \<or> b = Some True"
  by (cases "(a, b)" rule: or3.cases) auto

lemma or3_False: "or3 a b = Some False \<longleftrightarrow> a = Some False \<and> b = Some False"
  by (cases "(a, b)" rule: or3.cases) auto

lemma not3_True: "not3 a = Some True \<longleftrightarrow> a = Some False"
  by (cases a) auto

lemma scenario_filter_True:
  "scenario_filter scs r = Some True \<longleftrightarrow> scenario r \<in> Some ` set scs"
  by (auto simp: scenario_filter_def is_in_def split: option.splits)

lemma base_case_filter_True:
  "base_case_filter ssd r = Some True \<longleftrightarrow>
     scenario r = None \<or>
     (name r \<notin> name ` set ssd \<and> property_name r \<notin> property_name ` set ssd) \<or>
     property_name r = None"
  by (auto simp: base_case_filter_def or3_True not3_True or3_False is_null_def is_in_def
           split: option.splits)

lemma scenario_specific_data_eq:
  "scenario_specific_data scs plexos_data data_filter =
     filter (\<lambda>r. data_filter r = Some True \<and> scenario r \<in> Some ` set scs) plexos_data"
  by (simp add: scenario_specific_data_def df_filter_def and3_True scenario_filter_True)

lemma scenario_specific_data_no_scenarios:
  "scenario_specific_data [] plexos_data data_filter = []"
  by (simp add: scenario_specific_data_eq)

lemma get_model_data_rows:
  assumes "scenario_specific_data scs plexos_data data_filter \<noteq> []"
  shows "get_model_data (Some scs) plexos_data data_filter =
           Inr (scenario_specific_data scs plexos_data data_filter @
                filter (\<lambda>r. data_filter r = Some True \<and>
                   base_case_filter (scenario_specific_data scs plexos_data data_filter) r
                     = Some True) plexos_data)"
proof -
  from assms have "scs \<noteq> []"
    using scenario_specific_data_no_scenarios by blast
  then obtain s ss where "scs = s # ss" by (cases scs) auto
  with assms show ?thesis
    by (simp add: get_model_data_def Let_def df_filter_def and3_True)
qed

lemma pivot_cell_append:
  assumes "\<exists>r\<in>set xs. default_index r = k \<and> property_name r = c"
  shows "pivot_cell (xs @ ys) k c = pivot_cell xs k c"
  using assms by (induction xs) (auto simp: pivot_cell_def)

lemma system_regions_True:
  "system_regions rc sc r = Some True \<longleftrightarrow> child_class_id r = rc \<and> parent_class_id r = sc"
  by (simp add: system_regions_def and3_True)

lemma find_SomeD: "find P xs = Some x \<Longrightarrow> x \<in> set xs \<and> P x"
  by (induction xs) (auto split: if_splits)

lemma set_first_occurrences: "set (first_occurrences xs) = set xs"
  by (induction xs) auto

lemma distinct_first_occurrences: "distinct (first_occurrences xs)"
  by (induction xs) (auto simp: set_first_occurrences)

lemma pivot_index_unique: "distinct (map fst (pivot rows))"
proof -
  have "map fst (pivot rows) = first_occurrences (map default_index rows)"
    by (simp add: pivot_def comp_def)
  then show ?thesis by (simp add: distinct_first_occurrences)
qed

lemma pivot_cells:
  assumes "(k, cells) \<in> set (pivot rows)"
  shows "distinct (map fst cells) \<and> (\<forall>(c, v)\<in>set cells. v = pivot_cell rows k c)"
proof -
  from assms have
    "cells = map (\<lambda>c. (c, pivot_cell rows k c)) (first_occurrences (map property_name rows))"
    by (auto simp: pivot_def)
  then show ?thesis
    by (auto simp: comp_def distinct_first_occurrences)
qed

lemma pivot_cell_covered:
  assumes "\<exists>r\<in>set xs. default_index r = k \<and> property_name r = c"
  shows "\<exists>s\<in>set xs. default_index s = k \<and> property_name s = c \<and>
           pivot_cell xs k c = property_value s"
proof -
  from assms obtain s where
    "find (\<lambda>x. default_index x = k \<and> property_name x = c) xs = Some s"
    by (cases "find (\<lambda>x. default_index x = k \<and> property_name x = c) xs")
       (auto simp: find_None_iff)
  then show ?thesis
    by (auto simp: pivot_cell_def dest: find_SomeD)
qed

lemma pivot_has_cell:
  assumes "r \<in> set rows"
  shows "\<exists>cells. (default_index r, cells) \<in> set (pivot rows) \<and>
           (property_name r, pivot_cell rows (default_index r) (property_name r)) \<in> set cells"
proof -
  let ?cols = "first_occurrences (map property_name rows)"
  let ?cells = "map (\<lambda>c. (c, pivot_cell rows (default_index r) c)) ?cols"
  from assms have "default_index r \<in> set (first_occurrences (map default_index rows))"
    by (simp add: set_first_occurrences)
  then have "(default_index r, ?cells) \<in> set (pivot rows)"
    unfolding pivot_def set_map by (rule imageI)
  moreover from assms have "property_name r \<in> set ?cols"
    by (simp add: set_first_occurrences)
  then have "(property_name r, pivot_cell rows (default_index r) (property_name r)) \<in> set ?cells"
    unfolding set_map by (rule imageI)
  ultimately show ?thesis by blast
qed

subsection \<open>Override rows and base-case rows\<close>

text \<open>
  The resolved table when at least one row matches the predicate with a scenario of the
  active set: the scenario-matching rows followed by the predicate-matching rows that
  the mask selects, (scenario is null) or (name not among the names of the scenario rows
  and property name not among their property names) or (property name is null). The
  first disjunct alone selects every predicate-matching row with a null scenario, so the
  test of the names and property names removes no base-case row.
\<close>

theorem get_model_data_scenario_then_masked_rows:
  assumes "scenario_specific_data scs plexos_data data_filter = ssd" and "ssd \<noteq> []"
  shows "\<exists>res. get_model_data (Some scs) plexos_data data_filter = Inr res \<and>
           ssd = filter (\<lambda>r. data_filter r = Some True \<and> scenario r \<in> Some ` set scs)
                   plexos_data \<and>
           res = ssd @
                 filter (\<lambda>r. data_filter r = Some True \<and>
                          (scenario r = None \<or>
                           (name r \<notin> name ` set ssd \<and>
                            property_name r \<notin> property_name ` set ssd) \<or>
                           property_name r = None)) plexos_data \<and>
           (\<forall>r\<in>set plexos_data.
              data_filter r = Some True \<and> scenario r = None \<longrightarrow>
                r \<in> set res \<and> r \<notin> set ssd)"
proof -
  from assms have ne: "scenario_specific_data scs plexos_data data_filter \<noteq> []" by simp
  show ?thesis
    using get_model_data_rows [OF ne] assms(1)
    by (auto simp: base_case_filter_True scenario_specific_data_eq)
qed

theorem get_model_data_scenario_then_masked_rows_witness:
  "get_model_data (Some [''Scenario A''])
     [region_row 7 ''R1'' (Some ''Load'') (Some 200) None (Some ''Scenario A''),
      region_row 7 ''R1'' (Some ''Peak'') (Some 50) None (Some ''Scenario B''),
      region_row 7 ''R1'' (Some ''Load'') (Some 100) None None]
     (system_regions 2 1) =
   Inr [region_row 7 ''R1'' (Some ''Load'') (Some 200) None (Some ''Scenario A''),
        region_row 7 ''R1'' (Some ''Load'') (Some 100) None None]"
proof -
  let ?t = "[region_row 7 ''R1'' (Some ''Load'') (Some 200) None (Some ''Scenario A''),
      region_row 7 ''R1'' (Some ''Peak'') (Some 50) None (Some ''Scenario B''),
      region_row 7 ''R1'' (Some ''Load'') (Some 100) None None]"
  have s: "scenario_specific_data [''Scenario A''] ?t (system_regions 2 1) =
        [region_row 7 ''R1'' (Some ''Load'') (Some 200) None (Some ''Scenario A'')]"
    by (simp add: scenario_specific_data_eq system_regions_True region_row_def)
  have ne: "[region_row 7 ''R1'' (Some ''Load'') (Some 200) None (Some ''Scenario A'')] \<noteq> []"
    by simp
  from get_model_data_scenario_then_masked_rows [OF s ne]
  show ?thesis
    by (auto simp: system_regions_True region_row_def)
qed

text \<open>
  Claim C1 at the two rows of region R1 for the property Load, one of the active
  scenario and one of the base case: \<open>get_model_data\<close> returns both rows, where the
  claim has no base-case row for a name and property name that a scenario row covers.
\<close>

theorem get_model_data_keeps_covered_base_row:
  "get_model_data (Some [''Scenario A''])
     [region_row 7 ''R1'' (Some ''Load'') (Some 200) None (Some ''Scenario A''),
      region_row 7 ''R1'' (Some ''Load'') (Some 100) None None]
     (system_regions 2 1) =
   Inr [region_row 7 ''R1'' (Some ''Load'') (Some 200) None (Some ''Scenario A''),
        region_row 7 ''R1'' (Some ''Load'') (Some 100) None None]"
  by (simp add: get_model_data_def scenario_specific_data_eq system_regions_True
        region_row_def df_filter_def and3_True base_case_filter_True)

subsection \<open>Resolution without scenarios\<close>

text \<open>
  Claim C3, as amended. With no scenario set on the parser, or with an empty one,
  \<open>get_model_data\<close> raises \<open>ModelError\<close>. With a non-empty active scenario set none of
  whose scenarios tags a predicate-matching row, it returns exactly the rows that match
  the predicate and have a null scenario.
\<close>

theorem get_model_data_without_scenarios:
  "get_model_data None plexos_data data_filter = Inl ModelError \<and>
   get_model_data (Some []) plexos_data data_filter = Inl ModelError \<and>
   (scs \<noteq> [] \<and> scenario_specific_data scs plexos_data data_filter = [] \<longrightarrow>
      get_model_data (Some scs) plexos_data data_filter =
        Inr (filter (\<lambda>r. data_filter r = Some True \<and> scenario r = None) plexos_data))"
  by (cases scs) (simp_all add: get_model_data_def df_filter_def and3_True is_null_def)

theorem get_model_data_without_scenarios_witness:
  "[''Scenario B''] \<noteq> [] \<and>
   scenario_specific_data [''Scenario B'']
     [region_row 7 ''R1'' (Some ''Load'') (Some 200) None (Some ''Scenario A''),
      region_row 7 ''R1'' (Some ''Load'') (Some 100) None None] (system_regions 2 1) = [] \<and>
   get_model_data (Some [''Scenario B''])
     [region_row 7 ''R1'' (Some ''Load'') (Some 200) None (Some ''Scenario A''),
      region_row 7 ''R1'' (Some ''Load'') (Some 100) None None] (system_regions 2 1) =
   Inr [region_row 7 ''R1'' (Some ''Load'') (Some 100) None None]"
proof -
  let ?t = "[region_row 7 ''R1'' (Some ''Load'') (Some 200) None (Some ''Scenario A''),
      region_row 7 ''R1'' (Some ''Load'') (Some 100) None None]"
  have s: "scenario_specific_data [''Scenario B''] ?t (system_regions 2 1) = []"
    by (simp add: scenario_specific_data_eq system_regions_True region_row_def)
  from get_model_data_without_scenarios [of ?t "system_regions 2 1" "[''Scenario B'']"] s
  show ?thesis
    by (simp add: system_regions_True region_row_def)
qed

text \<open>
  Claim C3 as stated fails: with the empty scenario set the call raises, although the
  table has a base-case row that matches the predicate.
\<close>

theorem get_model_data_empty_scenarios_counterexample:
  "get_model_data (Some [])
     [region_row 7 ''R1'' (Some ''Load'') (Some 100) None None] (system_regions 2 1) =
   Inl ModelError \<and>
   filter (\<lambda>r. system_regions 2 1 r = Some True \<and> scenario r = None)
     [region_row 7 ''R1'' (Some ''Load'') (Some 100) None None] =
   [region_row 7 ''R1'' (Some ''Load'') (Some 100) None None]"
  by (simp add: get_model_data_def system_regions_True region_row_def)

subsection \<open>Scenario rows come first and win the pivot\<close>

text \<open>
  When scenario-matching rows exist, the resolved table is the block of scenario rows
  followed by the block of the rows that the mask selects: every row of the first block
  carries an active scenario and every row with a null scenario stands after the whole
  first block. The pivot of the resolved table has one output row for each index and one
  cell for each property name, and the cell of every index and property name that a
  scenario row covers holds the first value among the scenario rows.
\<close>

theorem scenario_rows_first_and_win_pivot:
  assumes "scenario_specific_data scs plexos_data data_filter = ssd" and "ssd \<noteq> []"
  shows "\<exists>base. get_model_data (Some scs) plexos_data data_filter = Inr (ssd @ base) \<and>
           (\<forall>r\<in>set ssd. scenario r \<in> Some ` set scs) \<and>
           (\<forall>i<length (ssd @ base). scenario ((ssd @ base) ! i) = None \<longrightarrow> length ssd \<le> i) \<and>
           (\<forall>r\<in>set ssd.
              (\<exists>cells. (default_index r, cells) \<in> set (pivot (ssd @ base)) \<and>
                 (property_name r, pivot_cell (ssd @ base) (default_index r) (property_name r))
                   \<in> set cells) \<and>
              pivot_cell (ssd @ base) (default_index r) (property_name r) =
                pivot_cell ssd (default_index r) (property_name r) \<and>
              (\<exists>s\<in>set ssd. default_index s = default_index r \<and>
                 property_name s = property_name r \<and>
                 pivot_cell (ssd @ base) (default_index r) (property_name r) =
                   property_value s)) \<and>
           distinct (map fst (pivot (ssd @ base))) \<and>
           (\<forall>(k, cells)\<in>set (pivot (ssd @ base)).
              distinct (map fst cells) \<and>
              (\<forall>(c, v)\<in>set cells.
                 (\<exists>r\<in>set ssd. default_index r = k \<and> property_name r = c) \<longrightarrow>
                   v = pivot_cell ssd k c \<and>
                   (\<exists>s\<in>set ssd. default_index s = k \<and> property_name s = c \<and>
                      v = property_value s)))"
proof -
  from assms have ne: "scenario_specific_data scs plexos_data data_filter \<noteq> []" by simp
  define base where "base = filter (\<lambda>r. data_filter r = Some True \<and>
      base_case_filter ssd r = Some True) plexos_data"
  have res: "get_model_data (Some scs) plexos_data data_filter = Inr (ssd @ base)"
    using get_model_data_rows [OF ne] assms(1) by (simp add: base_def)
  have act: "\<forall>r\<in>set ssd. scenario r \<in> Some ` set scs"
    using assms(1) by (auto simp: scenario_specific_data_eq)
  have pos: "\<forall>i<length (ssd @ base). scenario ((ssd @ base) ! i) = None \<longrightarrow> length ssd \<le> i"
  proof (intro allI impI)
    fix i assume "i < length (ssd @ base)" and n: "scenario ((ssd @ base) ! i) = None"
    show "length ssd \<le> i"
    proof (rule ccontr)
      assume "\<not> length ssd \<le> i"
      then have "i < length ssd" by simp
      then have "(ssd @ base) ! i \<in> set ssd" by (simp add: nth_append)
      with act n show False by force
    qed
  qed
  have cell: "\<forall>r\<in>set ssd.
              (\<exists>cells. (default_index r, cells) \<in> set (pivot (ssd @ base)) \<and>
                 (property_name r, pivot_cell (ssd @ base) (default_index r) (property_name r))
                   \<in> set cells) \<and>
              pivot_cell (ssd @ base) (default_index r) (property_name r) =
                pivot_cell ssd (default_index r) (property_name r) \<and>
              (\<exists>s\<in>set ssd. default_index s = default_index r \<and>
                 property_name s = property_name r \<and>
                 pivot_cell (ssd @ base) (default_index r) (property_name r) =
                   property_value s)"
  proof
    fix r assume r: "r \<in> set ssd"
    then have ex: "\<exists>x\<in>set ssd. default_index x = default_index r \<and>
        property_name x = property_name r"
      by blast
    have a: "pivot_cell (ssd @ base) (default_index r) (property_name r) =
                pivot_cell ssd (default_index r) (property_name r)"
      by (rule pivot_cell_append [OF ex])
    from r have "r \<in> set (ssd @ base)" by simp
    from pivot_has_cell [OF this] have p:
      "\<exists>cells. (default_index r, cells) \<in> set (pivot (ssd @ base)) \<and>
                 (property_name r, pivot_cell (ssd @ base) (default_index r) (property_name r))
                   \<in> set cells" .
    from pivot_cell_covered [OF ex] a p
    show "(\<exists>cells. (default_index r, cells) \<in> set (pivot (ssd @ base)) \<and>
                 (property_name r, pivot_cell (ssd @ base) (default_index r) (property_name r))
                   \<in> set cells) \<and>
              pivot_cell (ssd @ base) (default_index r) (property_name r) =
                pivot_cell ssd (default_index r) (property_name r) \<and>
              (\<exists>s\<in>set ssd. default_index s = default_index r \<and>
                 property_name s = property_name r \<and>
                 pivot_cell (ssd @ base) (default_index r) (property_name r) =
                   property_value s)"
      by auto
  qed
  have uniq: "\<forall>(k, cells)\<in>set (pivot (ssd @ base)).
              distinct (map fst cells) \<and>
              (\<forall>(c, v)\<in>set cells.
                 (\<exists>r\<in>set ssd. default_index r = k \<and> property_name r = c) \<longrightarrow>
                   v = pivot_cell ssd k c \<and>
                   (\<exists>s\<in>set ssd. default_index s = k \<and> property_name s = c \<and>
                      v = property_value s))"
  proof -
    have one: "distinct (map fst cells) \<and>
        (\<forall>c v. (c, v) \<in> set cells \<longrightarrow>
           (\<exists>r\<in>set ssd. default_index r = k \<and> property_name r = c) \<longrightarrow>
             v = pivot_cell ssd k c \<and>
             (\<exists>s\<in>set ssd. default_index s = k \<and> property_name s = c \<and>
                v = property_value s))"
      if kc: "(k, cells) \<in> set (pivot (ssd @ base))" for k cells
    proof (intro conjI allI impI)
      from pivot_cells [OF kc] show "distinct (map fst cells)" by simp
    next
      fix c v
      assume cv: "(c, v) \<in> set cells"
        and ex: "\<exists>r\<in>set ssd. default_index r = k \<and> property_name r = c"
      from pivot_cells [OF kc] cv have "v = pivot_cell (ssd @ base) k c" by auto
      with pivot_cell_append [OF ex] show "v = pivot_cell ssd k c" by simp
      with pivot_cell_covered [OF ex]
      show "\<exists>s\<in>set ssd. default_index s = k \<and> property_name s = c \<and> v = property_value s"
        by simp
    qed
    then show ?thesis by (simp add: case_prod_beta) (metis prod.collapse)
  qed
  from res act pos cell uniq pivot_index_unique [of "ssd @ base"] show ?thesis by blast
qed

theorem scenario_rows_first_and_win_pivot_witness:
  "\<exists>res. get_model_data (Some [''Scenario A''])
            [region_row 7 ''R1'' (Some ''Load'') (Some 100) None None,
             region_row 7 ''R1'' (Some ''Load'') (Some 200) None (Some ''Scenario A'')]
            (system_regions 2 1) = Inr res \<and>
         pivot_cell res (7, ''R1'', Some ''-'') (Some ''Load'') = Some 200"
proof -
  let ?s = "region_row 7 ''R1'' (Some ''Load'') (Some 200) None (Some ''Scenario A'')"
  let ?t = "[region_row 7 ''R1'' (Some ''Load'') (Some 100) None None, ?s]"
  have s: "scenario_specific_data [''Scenario A''] ?t (system_regions 2 1) = [?s]"
    by (simp add: scenario_specific_data_eq system_regions_True region_row_def)
  have ne: "[?s] \<noteq> []" by simp
  from scenario_rows_first_and_win_pivot [OF s ne] obtain base where
    res: "get_model_data (Some [''Scenario A'']) ?t (system_regions 2 1) = Inr ([?s] @ base)"
    and cell: "\<forall>r\<in>set [?s]. pivot_cell ([?s] @ base) (default_index r) (property_name r) =
                pivot_cell [?s] (default_index r) (property_name r)"
    by blast
  from cell have "pivot_cell ([?s] @ base) (7, ''R1'', Some ''-'') (Some ''Load'') = Some 200"
    by (simp add: default_index_def pivot_cell_def region_row_def)
  with res show ?thesis by blast
qed


subsection \<open>Model lookup\<close>

text \<open>
  Claim C6, as amended. \<open>process_scenarios\<close> raises \<open>ModelError\<close> when it is called
  with no model name and when the lookup of the model name returns more than one
  object, and leaves the parser as it was. When the lookup returns no object it logs a
  warning and returns, again leaving the parser as it was.
\<close>

theorem process_scenarios_model_lookup:
  "process_scenarios db scenario_class None self = (Inl ModelError, self) \<and>
   (length (query_model_id db model_name) > 1 \<longrightarrow>
      process_scenarios db scenario_class (Some model_name) self = (Inl ModelError, self)) \<and>
   (query_model_id db model_name = [] \<longrightarrow>
      process_scenarios db scenario_class (Some model_name) self =
        (Inr [ModelNotFound], self))"
  by (simp add: process_scenarios_def)

theorem process_scenarios_model_lookup_witness:
  "length (query_model_id
      \<lparr>objects = [\<lparr>obj_object_id = 3, obj_name = ''Base'', obj_class_id = 5\<rparr>,
                  \<lparr>obj_object_id = 4, obj_name = ''Base'', obj_class_id = 5\<rparr>],
       memberships = []\<rparr> ''Base'') > 1 \<and>
   process_scenarios
      \<lparr>objects = [\<lparr>obj_object_id = 3, obj_name = ''Base'', obj_class_id = 5\<rparr>,
                  \<lparr>obj_object_id = 4, obj_name = ''Base'', obj_class_id = 5\<rparr>],
       memberships = []\<rparr> 6 (Some ''Base'') \<lparr>model_id = None, scenarios = None\<rparr> =
     (Inl ModelError, \<lparr>model_id = None, scenarios = None\<rparr>) \<and>
   query_model_id
      \<lparr>objects = [\<lparr>obj_object_id = 3, obj_name = ''Base'', obj_class_id = 5\<rparr>,
                  \<lparr>obj_object_id = 4, obj_name = ''Base'', obj_class_id = 5\<rparr>],
       memberships = []\<rparr> ''Other'' = [] \<and>
   process_scenarios
      \<lparr>objects = [\<lparr>obj_object_id = 3, obj_name = ''Base'', obj_class_id = 5\<rparr>,
                  \<lparr>obj_object_id = 4, obj_name = ''Base'', obj_class_id = 5\<rparr>],
       memberships = []\<rparr> 6 (Some ''Other'') \<lparr>model_id = None, scenarios = None\<rparr> =
     (Inr [ModelNotFound], \<lparr>model_id = None, scenarios = None\<rparr>)"
proof -
  let ?db = "\<lparr>objects = [\<lparr>obj_object_id = 3, obj_name = ''Base'', obj_class_id = 5\<rparr>,
                  \<lparr>obj_object_id = 4, obj_name = ''Base'', obj_class_id = 5\<rparr>],
       memberships = []\<rparr>"
  have a: "length (query_model_id ?db ''Base'') > 1" by (simp add: query_model_id_def)
  have b: "query_model_id ?db ''Other'' = []" by (simp add: query_model_id_def)
  from process_scenarios_model_lookup
         [of ?db 6 "\<lparr>model_id = None, scenarios = None\<rparr>" "''Base''"]
       process_scenarios_model_lookup
         [of ?db 6 "\<lparr>model_id = None, scenarios = None\<rparr>" "''Other''"] a b
  show ?thesis by simp
qed

text \<open>
  Claim C6 as stated fails: a model name that no object carries gives a warning, not
  \<open>ModelError\<close>.
\<close>

theorem process_scenarios_model_not_found_counterexample:
  "process_scenarios
      \<lparr>objects = [\<lparr>obj_object_id = 3, obj_name = ''Base'', obj_class_id = 5\<rparr>],
       memberships = []\<rparr> 6 (Some ''Other'') \<lparr>model_id = None, scenarios = None\<rparr> =
     (Inr [ModelNotFound], \<lparr>model_id = None, scenarios = None\<rparr>)"
  by (simp add: process_scenarios_def query_model_id_def)

section \<open>Properties of the aggregation and of the builders\<close>

lemma parse_record_distinct:
  assumes "parse_record lib property_map st r = Inr st'"
    and "distinct (map fst (mapped_properties st))"
  shows "distinct (map fst (mapped_properties st'))"
  using assms
  by (auto simp: parse_record_def Let_def distinct_update
           split: sum.splits option.splits if_splits)

lemma parse_records_distinct:
  assumes "parse_records lib property_map st rs = Inr st'"
    and "distinct (map fst (mapped_properties st))"
  shows "distinct (map fst (mapped_properties st'))"
  using assms
proof (induction rs arbitrary: st)
  case Nil
  then show ?case by simp
next
  case (Cons r rs)
  then show ?case
    by (auto split: sum.splits dest: parse_record_distinct)
qed

lemma parse_property_data_distinct:
  assumes "parse_property_data lib property_map rs = Inr (parsed, multi)"
  shows "distinct (map fst parsed)"
  using assms parse_records_distinct [of lib property_map
      "\<lparr>mapped_properties = [], property_counts = [], multi_band_properties = {}\<rparr>" rs]
  by (auto simp: parse_property_data_def split: sum.splits)

lemma map_of_filter_distinct:
  assumes "distinct (map fst al)"
  shows "map_of (filter P al) k =
           (case map_of al k of None \<Rightarrow> None | Some v \<Rightarrow> if P (k, v) then Some v else None)"
  using assms
proof (induction al)
  case Nil
  then show ?case by simp
next
  case (Cons a al)
  obtain k' v' where a: "a = (k', v')" by (cases a)
  from Cons.prems a have notin: "k' \<notin> fst ` set al" by simp
  then have none: "map_of al k' = None" by (simp add: map_of_eq_None_iff)
  from Cons show ?case
    using a none by (auto split: option.splits)
qed

lemma map_of_filter_None:
  "map_of al k = None \<Longrightarrow> map_of (filter P al) k = None"
  by (auto simp: map_of_eq_None_iff)

lemma clamp_available_absent:
  "map_of vf ''available'' = None \<Longrightarrow> clamp_available lib vf = Inr vf"
  by (simp add: clamp_available_def)

lemma clamp_available_num:
  "map_of vf ''available'' = Some (VNum x) \<Longrightarrow>
   clamp_available lib vf =
     Inr (if x \<noteq> 0 \<and> 1 < x then AList.update ''available'' (VNum 1) vf else vf)"
  by (cases "x = 0") (simp_all add: clamp_available_def)

lemma map_of_update_ext:
  "map_of (if c then AList.update ''ext'' v d else d) ''available'' = map_of d ''available''"
  by (simp add: update_conv')

lemma entity_fields_available_absent:
  assumes "entity_fields lib flds mapped = Inr (Some kw)"
    and "map_of mapped ''available'' = None"
  shows "map_of kw ''available'' = None"
proof -
  let ?vf = "filter (\<lambda>(k, v). is_field flds k \<and> v \<noteq> VNone) mapped"
  have "map_of ?vf ''available'' = None"
    using assms(2) by (rule map_of_filter_None)
  then have c: "clamp_available lib ?vf = Inr ?vf" and n: "map_of ?vf ''available'' = None"
    by (simp_all add: clamp_available_absent)
  from assms(1) c n show ?thesis
    by (auto simp: entity_fields_def Let_def update_conv' split: if_splits)
qed

lemma entity_fields_available_num:
  assumes "entity_fields lib flds mapped = Inr (Some kw)"
    and "distinct (map fst mapped)"
    and "is_field flds ''available''"
    and "map_of mapped ''available'' = Some (VNum x)"
  shows "map_of kw ''available'' = Some (VNum (if 1 < x then 1 else x))"
proof -
  let ?vf = "filter (\<lambda>(k, v). is_field flds k \<and> v \<noteq> VNone) mapped"
  have n: "map_of ?vf ''available'' = Some (VNum x)"
    using assms(2,3,4) by (simp add: map_of_filter_distinct)
  then have c: "clamp_available lib ?vf =
     Inr (if x \<noteq> 0 \<and> 1 < x then AList.update ''available'' (VNum 1) ?vf else ?vf)"
    by (rule clamp_available_num)
  from assms(1) c n show ?thesis
    by (auto simp: entity_fields_def Let_def update_conv' split: if_splits)
qed

lemma entity_fields_available_not_field:
  assumes "entity_fields lib flds mapped = Inr (Some kw)"
    and "\<not> is_field flds ''available''"
  shows "map_of kw ''available'' = None"
proof -
  let ?vf = "filter (\<lambda>(k, v). is_field flds k \<and> v \<noteq> VNone) mapped"
  have n: "map_of ?vf ''available'' = None"
    using assms(2) by (auto simp: map_of_eq_None_iff)
  then have c: "clamp_available lib ?vf = Inr ?vf"
    by (simp_all add: clamp_available_absent)
  from assms(1) c n show ?thesis
    by (auto simp: entity_fields_def Let_def update_conv' split: if_splits)
qed

lemma generator_records_available:
  assumes "generator_records cfg generator_name fuel parsed = Inr m"
  shows "map_of m ''available'' = map_of parsed ''available''"
  using assms
  by (auto simp: generator_records_def Let_def update_conv'
           split: sum.splits option.splits if_splits)

lemma generator_records_distinct:
  assumes "generator_records cfg generator_name fuel parsed = Inr m"
    and "distinct (map fst parsed)"
  shows "distinct (map fst m)"
  using assms
  by (auto simp: generator_records_def Let_def distinct_update
           split: sum.splits option.splits if_splits)

lemma battery_records_available:
  "map_of (battery_records battery_name parsed) ''available'' = map_of parsed ''available''"
  by (auto simp: battery_records_def Let_def update_conv' split: option.splits)

lemma battery_records_distinct:
  "distinct (map fst parsed) \<Longrightarrow> distinct (map fst (battery_records battery_name parsed))"
  by (auto simp: battery_records_def Let_def distinct_update split: option.splits)

lemma construct_generator_Added:
  assumes "construct_generator lib cfg property_map generator_name fuel recs =
             Inr (Added cls kw)"
  shows "\<exists>flds parsed multi m.
           r2x_models cfg cls = Some flds \<and>
           parse_property_data lib property_map recs = Inr (parsed, multi) \<and>
           generator_records cfg generator_name fuel parsed = Inr m \<and>
           entity_fields lib flds m = Inr (Some kw)"
  using assms
  by (auto simp: construct_generator_def Let_def split: option.splits sum.splits if_splits)

lemma construct_battery_Added:
  assumes "construct_battery lib property_map battery_fields battery_name recs =
             Inr (Added cls kw)"
  shows "\<exists>parsed multi c.
           parse_property_data lib property_map recs = Inr (parsed, multi) \<and>
           entity_fields lib battery_fields (battery_records battery_name parsed) =
             Inr (Some kw) \<and>
           map_of (battery_records battery_name parsed) ''storage_capacity'' = Some c \<and>
           \<not> py_eq lib c 0"
  using assms
  by (auto simp: construct_battery_def Let_def split: option.splits sum.splits if_splits)

lemma entity_fields_returns:
  assumes "distinct (map fst mapped)"
    and "map_of mapped ''available'' = None \<or>
         (\<exists>x. map_of mapped ''available'' = Some (VNum x))"
  shows "\<exists>r. entity_fields lib flds mapped = Inr r"
proof -
  let ?vf = "filter (\<lambda>(k, v). is_field flds k \<and> v \<noteq> VNone) mapped"
  have "map_of ?vf ''available'' = None \<or> (\<exists>x. map_of ?vf ''available'' = Some (VNum x))"
    using assms by (auto simp: map_of_filter_distinct)
  then have "\<exists>c. clamp_available lib ?vf = Inr c"
    using clamp_available_absent [of ?vf lib] clamp_available_num [of ?vf _ lib] by auto
  then show ?thesis
    by (auto simp: entity_fields_def Let_def)
qed

lemma battery_records_storage_capacity:
  "map_of (battery_records battery_name bag) ''storage_capacity'' =
     (case map_of bag ''Capacity'' of
        Some v \<Rightarrow> Some v
      | None \<Rightarrow> map_of bag ''storage_capacity'')"
  by (auto simp: battery_records_def Let_def update_conv' split: option.splits)

subsection \<open>Evaluation of the examples\<close>

lemmas example_defs = example_units_def example_defaults_def example_property_map_def
  example_battery_fields_def prop_rec_def

lemmas builder_defs = construct_generator_def construct_battery_def parse_property_data_def
  parse_record_def record_value_def resolve_unit_def replace_dollar_def generator_records_def
  battery_records_def entity_fields_def clamp_available_def prime_mover_entry_def
  get_or_empty_def is_field_def has_key_def required_fields_def Let_def

lemma example_parse_units:
  "parse_property_data example_units example_property_map
     [prop_rec ''Units'' x 1, prop_rec ''Max Capacity'' 100 1] =
   Inr ([(''available'', VNum x), (''base_power'', VNum 100)], {})"
  by (simp add: example_defs parse_property_data_def parse_record_def record_value_def resolve_unit_def
        replace_dollar_def Let_def)

lemma example_parse_no_units:
  "parse_property_data example_units example_property_map
     [prop_rec ''Max Capacity'' 100 1] =
   Inr ([(''base_power'', VNum 100)], {})"
  by (simp add: example_defs parse_property_data_def parse_record_def record_value_def resolve_unit_def
        replace_dollar_def Let_def)

lemma example_generator_units_3:
  "construct_generator example_units example_defaults example_property_map ''G1''
     (Some ''Gas'') [prop_rec ''Units'' 3 1, prop_rec ''Max Capacity'' 100 1] =
   Inr (Added ''ThermalStandard''
     [(''available'', VNum 1), (''base_power'', VNum 100),
      (''name'', VStr ''G1''), (''prime_mover_type'', VPrimeMover ''OT''),
      (''fuel'', VStr ''OTHER'')])"
  by (simp add: example_defs builder_defs)

lemma example_generator_units_1:
  "construct_generator example_units example_defaults example_property_map ''G1''
     (Some ''Gas'') [prop_rec ''Units'' 1 1, prop_rec ''Max Capacity'' 100 1] =
   Inr (Added ''ThermalStandard''
     [(''available'', VNum 1), (''base_power'', VNum 100),
      (''name'', VStr ''G1''), (''prime_mover_type'', VPrimeMover ''OT''),
      (''fuel'', VStr ''OTHER'')])"
  by (simp add: example_defs builder_defs)

lemma example_generator_units_0:
  "construct_generator example_units example_defaults example_property_map ''G1''
     (Some ''Gas'') [prop_rec ''Units'' 0 1, prop_rec ''Max Capacity'' 100 1] =
   Inr (Added ''ThermalStandard''
     [(''available'', VNum 0), (''base_power'', VNum 100),
      (''name'', VStr ''G1''), (''prime_mover_type'', VPrimeMover ''OT''),
      (''fuel'', VStr ''OTHER'')])"
  by (simp add: example_defs builder_defs)

lemma example_generator_no_units:
  "construct_generator example_units example_defaults example_property_map ''G1''
     (Some ''Gas'') [prop_rec ''Max Capacity'' 100 1] =
   Inr (Added ''ThermalStandard''
     [(''base_power'', VNum 100),
      (''name'', VStr ''G1''), (''prime_mover_type'', VPrimeMover ''OT''),
      (''fuel'', VStr ''OTHER'')])"
  by (simp add: example_defs builder_defs)

lemma example_battery:
  "construct_battery example_units example_property_map example_battery_fields ''B1''
     [prop_rec ''Units'' 0 1, prop_rec ''Max Power'' 50 1, prop_rec ''Capacity'' 200 1] =
   Inr (Added ''GenericBattery''
     [(''available'', VNum 0), (''name'', VStr ''B1''), (''base_power'', VNum 50),
      (''storage_capacity'', VNum 200), (''prime_mover_type'', VPrimeMover ''BA''),
      (''ext'', VDict [(''Max Power'', VNum 50), (''Capacity'', VNum 200)])])"
  by (simp add: example_defs builder_defs)

lemma example_parse_battery:
  "parse_property_data example_units example_property_map
     [prop_rec ''Units'' x 1, prop_rec ''Max Power'' 50 1, prop_rec ''Capacity'' c 1] =
   Inr ([(''available'', VNum x), (''Max Power'', VNum 50), (''Capacity'', VNum c)], {})"
  by (simp add: example_defs parse_property_data_def parse_record_def record_value_def resolve_unit_def
        replace_dollar_def Let_def)

lemma example_entity_fields_battery:
  "entity_fields example_units example_battery_fields
     (battery_records ''B1''
        [(''available'', VNum 1), (''Max Power'', VNum 50), (''Capacity'', VNum 0)]) =
   Inr (Some [(''available'', VNum 1), (''name'', VStr ''B1''), (''base_power'', VNum 50),
      (''storage_capacity'', VNum 0), (''prime_mover_type'', VPrimeMover ''BA''),
      (''ext'', VDict [(''Max Power'', VNum 50), (''Capacity'', VNum 0)])])"
  by (simp add: example_defs builder_defs)

lemma example_battery_zero:
  "construct_battery example_units example_property_map example_battery_fields ''B1''
     [prop_rec ''Units'' 1 1, prop_rec ''Max Power'' 50 1, prop_rec ''Capacity'' 0 1] =
   Inr (Skipped ZeroCapacity)"
  by (simp add: example_defs builder_defs)

text \<open>
  The records of a scenario row and of a base-case row of one property in one band, in
  the order of the resolved table: the aggregation is last-write-wins, so the generator
  builder takes the base-case value 100 and not the scenario value 200.
\<close>

lemma example_generator_takes_base_value:
  "construct_generator example_units example_defaults example_property_map ''G1''
     (Some ''Gas'') [prop_rec ''Max Capacity'' 200 1, prop_rec ''Max Capacity'' 100 1] =
   Inr (Added ''ThermalStandard''
     [(''base_power'', VNum 100), (''name'', VStr ''G1''),
      (''prime_mover_type'', VPrimeMover ''OT''), (''fuel'', VStr ''OTHER'')])"
  by (simp add: example_defs builder_defs)

subsection \<open>Bands of one property\<close>

text \<open>
  Two records of one property whose name the property map leaves as it is: with
  different bands the first value stays under the name, the second goes under the name
  suffixed with an underscore and the band, and the name is marked as multi-band; with
  the same band the second value replaces the first.
\<close>

lemma parse_property_data_two_unmapped:
  assumes "property_map p = None"
    and "rec_property_name r1 = p" and "rec_property_name r2 = p"
    and "record_value lib r1 = Inr v1" and "record_value lib r2 = Inr v2"
  shows "parse_property_data lib property_map [r1, r2] =
     (if rec_band r1 \<noteq> rec_band r2
      then Inr ([(p, v1), (p @ ''_'' @ string_of_int (rec_band r2), v2)], {p})
      else Inr ([(p, v2)], {}))"
  using assms
  by (auto simp: parse_property_data_def parse_record_def Let_def)

text \<open>
  Two records of one property that the property map renames: the second value replaces
  the first under the mapped name whatever the bands are, because the loop looks the
  PLEXOS name up among the mapped names.
\<close>

lemma parse_property_data_two_mapped:
  assumes "property_map p = Some q" and "q \<noteq> p"
    and "rec_property_name r1 = p" and "rec_property_name r2 = p"
    and "record_value lib r1 = Inr v1" and "record_value lib r2 = Inr v2"
  shows "parse_property_data lib property_map [r1, r2] = Inr ([(q, v2)], {})"
  using assms
  by (auto simp: parse_property_data_def parse_record_def Let_def)

text \<open>
  Claim C2 at the records of \<^verbatim>\<open>Max Capacity\<close> in bands 1 and 2, with
  \<^verbatim>\<open>Max Capacity\<close> mapped to \<^verbatim>\<open>base_power\<close>: the aggregation returns the single
  field \<^verbatim>\<open>base_power\<close> with the value of band 2 and an empty multi-band set, where
  the claim has the two fields \<^verbatim>\<open>base_power\<close> and \<^verbatim>\<open>base_power_2\<close> and the
  multi-band set holding \<^verbatim>\<open>base_power\<close>.
\<close>

theorem parse_property_data_mapped_name_bands_overwrite:
  "parse_property_data example_units example_property_map
     [prop_rec ''Max Capacity'' 100 1, prop_rec ''Max Capacity'' 200 2] =
   Inr ([(''base_power'', VNum 200)], {})"
  by (simp add: example_defs parse_property_data_def parse_record_def record_value_def
        resolve_unit_def replace_dollar_def Let_def)

subsection \<open>The clamp of \<^verbatim>\<open>available\<close> in the generator builder\<close>

text \<open>
  Claim C4. For a generator that the builder constructs with a class declaring the
  field \<^verbatim>\<open>available\<close>: when the aggregated attribute bag maps \<^verbatim>\<open>available\<close> to
  a number greater than 1, the keyword arguments of the entity have \<^verbatim>\<open>available\<close>
  equal to 1; a value equal to 1 stays 1; and when \<^verbatim>\<open>available\<close> is absent from the
  bag, the keyword arguments have no \<^verbatim>\<open>available\<close>.
\<close>

theorem generator_available_clamped:
  assumes "parse_property_data lib property_map recs = Inr (bag, multi)"
    and "construct_generator lib cfg property_map generator_name fuel recs =
           Inr (Added cls kw)"
    and "r2x_models cfg cls = Some flds"
    and "is_field flds ''available''"
  shows "(\<forall>x. map_of bag ''available'' = Some (VNum x) \<and> 1 < x \<longrightarrow>
              map_of kw ''available'' = Some (VNum 1)) \<and>
         (map_of bag ''available'' = Some (VNum 1) \<longrightarrow>
              map_of kw ''available'' = Some (VNum 1)) \<and>
         (map_of bag ''available'' = None \<longrightarrow> map_of kw ''available'' = None)"
proof -
  from construct_generator_Added [OF assms(2)] assms(1,3) obtain m where
    m: "generator_records cfg generator_name fuel bag = Inr m"
    and e: "entity_fields lib flds m = Inr (Some kw)"
    by auto
  have d: "distinct (map fst m)"
    using generator_records_distinct [OF m] parse_property_data_distinct [OF assms(1)]
    by simp
  have a: "map_of m ''available'' = map_of bag ''available''"
    by (rule generator_records_available [OF m])
  have "map_of kw ''available'' = Some (VNum (if 1 < x then 1 else x))"
    if "map_of bag ''available'' = Some (VNum x)" for x
    using entity_fields_available_num [OF e d assms(4)] a that by simp
  moreover have "map_of kw ''available'' = None" if "map_of bag ''available'' = None"
    using entity_fields_available_absent [OF e] a that by simp
  ultimately show ?thesis by simp
qed

theorem generator_available_clamped_witness:
  "(\<exists>kw. construct_generator example_units example_defaults example_property_map ''G1''
            (Some ''Gas'') [prop_rec ''Units'' 3 1, prop_rec ''Max Capacity'' 100 1] =
          Inr (Added ''ThermalStandard'' kw) \<and>
          map_of kw ''available'' = Some (VNum 1)) \<and>
   (\<exists>kw. construct_generator example_units example_defaults example_property_map ''G1''
            (Some ''Gas'') [prop_rec ''Units'' 1 1, prop_rec ''Max Capacity'' 100 1] =
          Inr (Added ''ThermalStandard'' kw) \<and>
          map_of kw ''available'' = Some (VNum 1)) \<and>
   (\<exists>kw. construct_generator example_units example_defaults example_property_map ''G1''
            (Some ''Gas'') [prop_rec ''Max Capacity'' 100 1] =
          Inr (Added ''ThermalStandard'' kw) \<and>
          map_of kw ''available'' = None)"
proof -
  have f: "r2x_models example_defaults ''ThermalStandard'' =
      Some [(''name'', True), (''available'', False), (''base_power'', False),
            (''prime_mover_type'', False), (''fuel'', False), (''ext'', False)]"
    by (simp add: example_defaults_def)
  have a: "is_field [(''name'', True), (''available'', False), (''base_power'', False),
            (''prime_mover_type'', False), (''fuel'', False), (''ext'', False)] ''available''"
    by (simp add: is_field_def)
  have b3: "map_of [(''available'', VNum 3), (''base_power'', VNum 100)] ''available'' =
      Some (VNum (3::real)) \<and> (1::real) < 3"
    by simp
  have b1: "map_of [(''available'', VNum 1), (''base_power'', VNum 100)] ''available'' =
      Some (VNum (1::real))"
    by simp
  have b0: "map_of [(''base_power'', VNum 100)] ''available'' = None"
    by simp
  from generator_available_clamped
         [OF example_parse_units [of 3] example_generator_units_3 f a] b3
  have "\<exists>kw. construct_generator example_units example_defaults example_property_map ''G1''
            (Some ''Gas'') [prop_rec ''Units'' 3 1, prop_rec ''Max Capacity'' 100 1] =
          Inr (Added ''ThermalStandard'' kw) \<and>
          map_of kw ''available'' = Some (VNum 1)"
    using example_generator_units_3 by blast
  moreover
  from generator_available_clamped
         [OF example_parse_units [of 1] example_generator_units_1 f a] b1
  have "\<exists>kw. construct_generator example_units example_defaults example_property_map ''G1''
            (Some ''Gas'') [prop_rec ''Units'' 1 1, prop_rec ''Max Capacity'' 100 1] =
          Inr (Added ''ThermalStandard'' kw) \<and>
          map_of kw ''available'' = Some (VNum 1)"
    using example_generator_units_1 by blast
  moreover
  from generator_available_clamped
         [OF example_parse_no_units example_generator_no_units f a] b0
  have "\<exists>kw. construct_generator example_units example_defaults example_property_map ''G1''
            (Some ''Gas'') [prop_rec ''Max Capacity'' 100 1] =
          Inr (Added ''ThermalStandard'' kw) \<and>
          map_of kw ''available'' = None"
    using example_generator_no_units by blast
  ultimately show ?thesis by blast
qed

subsection \<open>Retired units\<close>

text \<open>
  Claim C10. For a generator or a battery that its builder constructs with a class
  declaring the field \<^verbatim>\<open>available\<close>: when the aggregated attribute bag maps
  \<^verbatim>\<open>available\<close> to 0, the keyword arguments of the entity have \<^verbatim>\<open>available\<close>
  equal to 0; the value is neither clamped to 1 nor dropped.
\<close>

theorem retired_unit_keeps_available_zero:
  assumes "parse_property_data lib property_map recs = Inr (bag, multi)"
    and "map_of bag ''available'' = Some (VNum 0)"
  shows "(construct_generator lib cfg property_map generator_name fuel recs =
            Inr (Added cls kw) \<and>
          r2x_models cfg cls = Some flds \<and> is_field flds ''available'' \<longrightarrow>
            map_of kw ''available'' = Some (VNum 0)) \<and>
         (construct_battery lib property_map battery_fields battery_name recs =
            Inr (Added cls' kw') \<and>
          is_field battery_fields ''available'' \<longrightarrow>
            map_of kw' ''available'' = Some (VNum 0))"
proof (intro conjI impI)
  assume g: "construct_generator lib cfg property_map generator_name fuel recs =
            Inr (Added cls kw) \<and>
          r2x_models cfg cls = Some flds \<and> is_field flds ''available''"
  from construct_generator_Added [of lib cfg property_map generator_name fuel recs cls kw]
    g assms(1) obtain m where
    m: "generator_records cfg generator_name fuel bag = Inr m"
    and e: "entity_fields lib flds m = Inr (Some kw)"
    by auto
  have d: "distinct (map fst m)"
    using generator_records_distinct [OF m] parse_property_data_distinct [OF assms(1)]
    by simp
  have a: "map_of m ''available'' = Some (VNum 0)"
    using generator_records_available [OF m] assms(2) by simp
  from g have fld: "is_field flds ''available''" by simp
  show "map_of kw ''available'' = Some (VNum 0)"
    using entity_fields_available_num [OF e d fld a] by simp
next
  assume b: "construct_battery lib property_map battery_fields battery_name recs =
            Inr (Added cls' kw') \<and>
          is_field battery_fields ''available''"
  from construct_battery_Added [of lib property_map battery_fields battery_name recs cls' kw']
    b assms(1) have
    e: "entity_fields lib battery_fields (battery_records battery_name bag) = Inr (Some kw')"
    by auto
  have d: "distinct (map fst (battery_records battery_name bag))"
    using battery_records_distinct parse_property_data_distinct [OF assms(1)] by blast
  have a: "map_of (battery_records battery_name bag) ''available'' = Some (VNum 0)"
    using battery_records_available [of battery_name bag] assms(2) by simp
  from b have fld: "is_field battery_fields ''available''" by simp
  show "map_of kw' ''available'' = Some (VNum 0)"
    using entity_fields_available_num [OF e d fld a] by simp
qed

theorem retired_unit_keeps_available_zero_witness:
  "(\<exists>kw. construct_generator example_units example_defaults example_property_map ''G1''
            (Some ''Gas'') [prop_rec ''Units'' 0 1, prop_rec ''Max Capacity'' 100 1] =
          Inr (Added ''ThermalStandard'' kw) \<and>
          map_of kw ''available'' = Some (VNum 0)) \<and>
   (\<exists>kw. construct_battery example_units example_property_map example_battery_fields ''B1''
            [prop_rec ''Units'' 0 1, prop_rec ''Max Power'' 50 1,
             prop_rec ''Capacity'' 200 1] =
          Inr (Added ''GenericBattery'' kw) \<and>
          map_of kw ''available'' = Some (VNum 0))"
proof -
  have f: "r2x_models example_defaults ''ThermalStandard'' =
      Some [(''name'', True), (''available'', False), (''base_power'', False),
            (''prime_mover_type'', False), (''fuel'', False), (''ext'', False)]"
    by (simp add: example_defaults_def)
  have a: "is_field [(''name'', True), (''available'', False), (''base_power'', False),
            (''prime_mover_type'', False), (''fuel'', False), (''ext'', False)] ''available''"
    by (simp add: is_field_def)
  have ab: "is_field example_battery_fields ''available''"
    by (simp add: is_field_def example_battery_fields_def)
  have z: "map_of [(''available'', VNum 0), (''base_power'', VNum 100)] ''available'' =
      Some (VNum (0::real))"
    by simp
  have zb: "map_of [(''available'', VNum 0), (''Max Power'', VNum 50),
      (''Capacity'', VNum 200)] ''available'' = Some (VNum (0::real))"
    by simp
  from retired_unit_keeps_available_zero [OF example_parse_units [of 0] z]
    example_generator_units_0 f a
  have "\<exists>kw. construct_generator example_units example_defaults example_property_map ''G1''
            (Some ''Gas'') [prop_rec ''Units'' 0 1, prop_rec ''Max Capacity'' 100 1] =
          Inr (Added ''ThermalStandard'' kw) \<and>
          map_of kw ''available'' = Some (VNum 0)"
    by blast
  moreover
  from retired_unit_keeps_available_zero [OF example_parse_battery [of 0 200] zb]
    example_battery ab
  have "\<exists>kw. construct_battery example_units example_property_map example_battery_fields
            ''B1'' [prop_rec ''Units'' 0 1, prop_rec ''Max Power'' 50 1,
             prop_rec ''Capacity'' 200 1] =
          Inr (Added ''GenericBattery'' kw) \<and>
          map_of kw ''available'' = Some (VNum 0)"
    by blast
  ultimately show ?thesis by blast
qed

subsection \<open>Batteries without capacity\<close>

text \<open>
  Claim C5, as amended. For a battery whose \<^verbatim>\<open>storage_capacity\<close>, after the renaming of
  \<^verbatim>\<open>Capacity\<close>, equals 0: the builder never adds the battery, whatever the fields of
  the battery class and the other attributes are; and when the aggregated attribute bag
  has no \<^verbatim>\<open>available\<close> or maps it to a plain number, the builder skips the battery
  with a warning (for missing required fields or for zero capacity) and the loop goes on
  to the next battery with the system unchanged.
\<close>

theorem battery_zero_capacity_skipped:
  assumes "parse_property_data lib property_map recs = Inr (bag, multi)"
    and "map_of (battery_records battery_name bag) ''storage_capacity'' = Some c"
    and "py_eq lib c 0"
  shows "(\<forall>cls kw. construct_battery lib property_map battery_fields battery_name recs \<noteq>
            Inr (Added cls kw)) \<and>
         (map_of bag ''available'' = None \<or>
          (\<exists>x. map_of bag ''available'' = Some (VNum x))
          \<longrightarrow> (\<exists>w. (w = MissingRequiredFields \<or> w = ZeroCapacity) \<and>
                 construct_battery lib property_map battery_fields battery_name recs =
                   Inr (Skipped w) \<and>
                 construct_batteries lib property_map battery_fields
                   ((battery_name, recs) # groups) st =
                 construct_batteries lib property_map battery_fields groups
                   (fst st, snd st @ [w])))"
proof (intro conjI allI impI)
  fix cls kw
  show "construct_battery lib property_map battery_fields battery_name recs \<noteq>
          Inr (Added cls kw)"
  proof
    assume "construct_battery lib property_map battery_fields battery_name recs =
          Inr (Added cls kw)"
    from construct_battery_Added [OF this] assms show False by auto
  qed
next
  assume numeric: "map_of bag ''available'' = None \<or>
          (\<exists>x. map_of bag ''available'' = Some (VNum x))"
  have d: "distinct (map fst (battery_records battery_name bag))"
    using battery_records_distinct parse_property_data_distinct [OF assms(1)] by blast
  have a: "map_of (battery_records battery_name bag) ''available'' = None \<or>
      (\<exists>x. map_of (battery_records battery_name bag) ''available'' = Some (VNum x))"
    using numeric by (simp add: battery_records_available)
  from entity_fields_returns [OF d a] obtain r where
    r: "entity_fields lib battery_fields (battery_records battery_name bag) = Inr r"
    by blast
  define w where "w = (case r of None \<Rightarrow> MissingRequiredFields | Some _ \<Rightarrow> ZeroCapacity)"
  have c: "construct_battery lib property_map battery_fields battery_name recs =
             Inr (Skipped w)"
    using assms r by (cases r) (simp_all add: construct_battery_def w_def)
  have "w = MissingRequiredFields \<or> w = ZeroCapacity"
    by (cases r) (simp_all add: w_def)
  moreover have "construct_batteries lib property_map battery_fields
                   ((battery_name, recs) # groups) st =
                 construct_batteries lib property_map battery_fields groups
                   (fst st, snd st @ [w])"
    using c by (simp add: register_def)
  ultimately show "\<exists>w. (w = MissingRequiredFields \<or> w = ZeroCapacity) \<and>
                 construct_battery lib property_map battery_fields battery_name recs =
                   Inr (Skipped w) \<and>
                 construct_batteries lib property_map battery_fields
                   ((battery_name, recs) # groups) st =
                 construct_batteries lib property_map battery_fields groups
                   (fst st, snd st @ [w])"
    using c by blast
qed

theorem battery_zero_capacity_skipped_witness:
  "construct_batteries example_units example_property_map example_battery_fields
     [(''B1'', [prop_rec ''Units'' 1 1, prop_rec ''Max Power'' 50 1,
                prop_rec ''Capacity'' 0 1])]
     (\<lparr>components = [], attached_series = []\<rparr>, []) =
   Inr (\<lparr>components = [], attached_series = []\<rparr>, [ZeroCapacity])"
proof -
  let ?bag = "[(''available'', VNum 1), (''Max Power'', VNum 50), (''Capacity'', VNum 0)]"
  let ?recs = "[prop_rec ''Units'' 1 1, prop_rec ''Max Power'' 50 1,
                prop_rec ''Capacity'' 0 1]"
  have c: "map_of (battery_records ''B1'' ?bag) ''storage_capacity'' = Some (VNum (0::real))"
    by (simp add: battery_records_storage_capacity)
  have z: "py_eq example_units (VNum 0) 0" by simp
  have n: "map_of ?bag ''available'' = None \<or>
      (\<exists>x. map_of ?bag ''available'' = Some (VNum x))"
    by simp
  from battery_zero_capacity_skipped
         [OF example_parse_battery [of 1 0] c z, of example_battery_fields "[]"
            "(\<lparr>components = [], attached_series = []\<rparr>, [])"] n
  obtain w where w: "w = MissingRequiredFields \<or> w = ZeroCapacity"
    and s: "construct_battery example_units example_property_map example_battery_fields
              ''B1'' ?recs = Inr (Skipped w)"
    and l: "construct_batteries example_units example_property_map example_battery_fields
              [(''B1'', ?recs)] (\<lparr>components = [], attached_series = []\<rparr>, []) =
            Inr (\<lparr>components = [], attached_series = []\<rparr>, [w])"
    by auto
  from s example_battery_zero have "w = ZeroCapacity" by simp
  with l show ?thesis by simp
qed

text \<open>
  Claim C5 as stated fails: a battery without capacity whose \<^verbatim>\<open>Units\<close> carry the
  unit MW is not skipped with a warning. The comparison of the clamp raises before the
  checks of the required fields and of the capacity, and the loop stops with the
  exception.
\<close>

theorem battery_zero_capacity_raises_counterexample:
  "construct_batteries example_units example_property_map example_battery_fields
     [(''B1'', [\<lparr>rec_band = 1, rec_property_name = ''Units'', rec_property_value = 2,
                 rec_property_unit = ''MW''\<rparr>,
                prop_rec ''Max Power'' 50 1, prop_rec ''Capacity'' 0 1])]
     (\<lparr>components = [], attached_series = []\<rparr>, []) =
   Inl ValueError"
  by (simp add: example_defs builder_defs)

section \<open>Properties of the time series handlers\<close>

lemma month_code_parse:
  assumes "1 \<le> m" and "m \<le> 12"
  shows "py_int (py_strip ''M'' (''M'' @ string_of_int m)) = Inr m"
proof -
  from assms have "m = 1 \<or> m = 2 \<or> m = 3 \<or> m = 4 \<or> m = 5 \<or> m = 6 \<or> m = 7 \<or> m = 8 \<or>
      m = 9 \<or> m = 10 \<or> m = 11 \<or> m = 12"
    by presburger
  then show ?thesis
    by (elim disjE)
       (simp_all add: py_int_def py_strip_def whitespace_def string_of_int_def
          string_of_nat.simps digit_char_def)
qed

lemma month_code_parse_Cons:
  assumes "1 \<le> m" and "m \<le> 12"
  shows "py_int (py_strip ''M'' (CHR ''M'' # string_of_int m)) = Inr m"
  using month_code_parse [OF assms] by simp

lemma length_set_month:
  "length series = length months \<Longrightarrow> length (set_month months month v series) = length months"
  by (simp add: set_month_def)

lemma nth_set_month:
  "length series = length months \<Longrightarrow> i < length months \<Longrightarrow>
   set_month months month v series ! i = (if months ! i = month then v else series ! i)"
  by (simp add: set_month_def)

lemma fill_months_nth:
  assumes "\<forall>r\<in>set rs. py_int (py_strip ''M'' (slice_text r)) = Inr (mo r)"
    and "distinct (map mo rs)"
    and "length series = length months"
  shows "\<exists>series'. fill_months months rs series = Inr series' \<and>
           length series' = length months \<and>
           (\<forall>i<length months.
              (\<forall>r\<in>set rs. mo r = months ! i \<longrightarrow> series' ! i = slice_value r) \<and>
              ((\<forall>r\<in>set rs. mo r \<noteq> months ! i) \<longrightarrow> series' ! i = series ! i))"
  using assms
proof (induction rs arbitrary: series)
  case Nil
  then show ?case by simp
next
  case (Cons r rs)
  let ?s1 = "set_month months (mo r) (slice_value r) series"
  have len: "length ?s1 = length months"
    using Cons.prems(3) by (rule length_set_month)
  from Cons.prems have p: "\<forall>x\<in>set rs. py_int (py_strip ''M'' (slice_text x)) = Inr (mo x)"
    and d: "distinct (map mo rs)" and notin: "mo r \<notin> mo ` set rs"
    by auto
  from Cons.IH [OF p d len] obtain series' where
    f: "fill_months months rs ?s1 = Inr series'"
    and l: "length series' = length months"
    and n: "\<forall>i<length months.
              (\<forall>x\<in>set rs. mo x = months ! i \<longrightarrow> series' ! i = slice_value x) \<and>
              ((\<forall>x\<in>set rs. mo x \<noteq> months ! i) \<longrightarrow> series' ! i = ?s1 ! i)"
    by blast
  have step: "fill_months months (r # rs) series = Inr series'"
    using Cons.prems(1) f by simp
  have "(\<forall>x\<in>set (r # rs). mo x = months ! i \<longrightarrow> series' ! i = slice_value x) \<and>
        ((\<forall>x\<in>set (r # rs). mo x \<noteq> months ! i) \<longrightarrow> series' ! i = series ! i)"
    if i: "i < length months" for i
  proof -
    from n i have a: "\<forall>x\<in>set rs. mo x = months ! i \<longrightarrow> series' ! i = slice_value x"
      and b: "(\<forall>x\<in>set rs. mo x \<noteq> months ! i) \<longrightarrow> series' ! i = ?s1 ! i"
      by simp_all
    have s1: "?s1 ! i = (if months ! i = mo r then slice_value r else series ! i)"
      using Cons.prems(3) i by (rule nth_set_month)
    have "series' ! i = slice_value r" if "mo r = months ! i"
    proof -
      from that notin have "\<forall>x\<in>set rs. mo x \<noteq> months ! i" by (metis imageI)
      with b s1 that show ?thesis by simp
    qed
    moreover have "series' ! i = series ! i" if "\<forall>x\<in>set (r # rs). mo x \<noteq> months ! i"
      using that b s1 by auto
    ultimately show ?thesis using a by auto
  qed
  with step l show ?case by blast
qed

lemma length_hour_months:
  "length (hour_months y) = 24 * (if is_leap_year y then 366 else 365)"
  by (simp add: hour_months_def days_in_month_def)

lemma set_hour_months: "set (hour_months y) \<subseteq> {1..12}"
  by (auto simp: hour_months_def split: if_splits)

lemma month_codes_exact:
  assumes len: "length rs = 12"
    and cover: "\<forall>m\<in>{1..12}. \<exists>r\<in>set rs. slice_text r = ''M'' @ string_of_int m"
  shows "distinct (map slice_text rs) \<and>
         (\<forall>r\<in>set rs. \<exists>m\<in>{1..12}. slice_text r = ''M'' @ string_of_int m)"
proof -
  let ?f = "\<lambda>m::int. ''M'' @ string_of_int m"
  let ?T = "?f ` {1..12}"
  have inj: "inj_on ?f {1..12}"
  proof (rule inj_onI)
    fix a b :: int
    assume a: "a \<in> {1..12}" and b: "b \<in> {1..12}" and eq: "?f a = ?f b"
    from a have pa: "py_int (py_strip ''M'' (?f a)) = Inr a"
      by (simp add: month_code_parse_Cons)
    from b have pb: "py_int (py_strip ''M'' (?f b)) = Inr b"
      by (simp add: month_code_parse_Cons)
    from pa pb show "a = b" unfolding eq by simp
  qed
  have cardT: "card ?T = 12"
    using card_image [OF inj] by simp
  have sub: "?T \<subseteq> set (map slice_text rs)"
  proof
    fix t assume "t \<in> ?T"
    then obtain m where "m \<in> {1..12}" and t: "t = ?f m" by blast
    with cover obtain r where "r \<in> set rs" and "slice_text r = ?f m" by blast
    with t show "t \<in> set (map slice_text rs)" by force
  qed
  have "card ?T \<le> card (set (map slice_text rs))"
    using sub by (simp add: card_mono)
  moreover have "card (set (map slice_text rs)) \<le> length (map slice_text rs)"
    by (rule card_length)
  ultimately have c: "card (set (map slice_text rs)) = length (map slice_text rs)"
    and c12: "card (set (map slice_text rs)) = card ?T"
    using len cardT by simp_all
  from c have d: "distinct (map slice_text rs)" by (rule card_distinct)
  have "?T = set (map slice_text rs)"
    using sub c12 by (simp add: card_subset_eq)
  then have "\<forall>r\<in>set rs. slice_text r \<in> ?T" by auto
  then have "\<forall>r\<in>set rs. \<exists>m\<in>{1..12}. slice_text r = ?f m" by blast
  with d show ?thesis by simp
qed

lemma month_records_cover:
  "\<forall>m\<in>{1..12}. \<exists>r\<in>set month_records. slice_text r = ''M'' @ string_of_int m"
proof
  fix m :: int assume "m \<in> {1..12}"
  then have "m = 1 \<or> m = 2 \<or> m = 3 \<or> m = 4 \<or> m = 5 \<or> m = 6 \<or> m = 7 \<or> m = 8 \<or>
      m = 9 \<or> m = 10 \<or> m = 11 \<or> m = 12"
    by (simp add: atLeastAtMost_iff) presburger
  then have "m \<in> set [1, 2, 3, 4, 5, 6, 7, 8, 9, 10, 11, 12]" by auto
  then have "\<lparr>slice_text = ''M'' @ string_of_int m, slice_value = 100 * real_of_int m\<rparr>
      \<in> set month_records"
    unfolding month_records_def set_map by (rule imageI)
  then show "\<exists>r\<in>set month_records. slice_text r = ''M'' @ string_of_int m"
    by force
qed

lemma month_records_values:
  "\<forall>r\<in>set month_records.
     (slice_text r = ''M1'' \<longrightarrow> slice_value r = 100) \<and>
     (slice_text r = ''M2'' \<longrightarrow> slice_value r = 200)"
  by (simp add: month_records_def string_of_int_def string_of_nat.simps digit_char_def)

lemma hour_months_first: "hour_months 2012 ! 0 = 1 \<and> hour_months 2012 ! 744 = 2"
  by (simp add: hour_months_def days_in_month_def nth_append)

lemma month_rows_resolved:
  "get_model_data (Some [''Scenario A'']) month_rows (system_regions 2 1) = Inr month_rows"
  by (simp add: get_model_data_def scenario_specific_data_eq system_regions_True
        month_rows_def region_row_def df_filter_def and3_True is_null_def)

lemma month_rows_groups:
  "group_by_name id (df_filter (\<lambda>r. not3 (is_null (text_col r))) month_rows) =
     [(''R1'', month_rows)]"
  by (simp add: group_by_name_def df_filter_def is_null_def month_rows_def region_row_def)

lemma load_profile_log:
  "load_profile lib fs nodes_region weather_year g (sys, lg) =
     (case load_profile lib fs nodes_region weather_year g (sys, []) of
        Inl e \<Rightarrow> Inl e
      | Inr (sys', ws) \<Rightarrow> Inr (sys', lg @ ws))"
  by (cases g) (auto simp: Let_def split: sum.splits option.splits list.splits)

lemma load_profiles_system_log:
  "map_sum id fst (load_profiles lib fs nodes_region weather_year gs (sys, lg1)) =
   map_sum id fst (load_profiles lib fs nodes_region weather_year gs (sys, lg2))"
proof (induction gs arbitrary: sys lg1 lg2)
  case Nil
  then show ?case by simp
next
  case (Cons g gs)
  show ?case
  proof (cases "load_profile lib fs nodes_region weather_year g (sys, [])")
    case (Inl e)
    then show ?thesis
      using load_profile_log [of lib fs nodes_region weather_year g sys lg1]
        load_profile_log [of lib fs nodes_region weather_year g sys lg2]
      by simp
  next
    case (Inr st')
    obtain sys' ws where st': "st' = (sys', ws)" by (cases st')
    from Inr st' have
      "load_profile lib fs nodes_region weather_year g (sys, lg1) = Inr (sys', lg1 @ ws)"
      "load_profile lib fs nodes_region weather_year g (sys, lg2) = Inr (sys', lg2 @ ws)"
      using load_profile_log [of lib fs nodes_region weather_year g sys lg1]
        load_profile_log [of lib fs nodes_region weather_year g sys lg2]
      by simp_all
    then show ?thesis
      using Cons.IH [of sys' "lg1 @ ws" "lg2 @ ws"] by simp
  qed
qed

lemma load_profiles_append:
  "load_profiles lib fs nodes_region weather_year (gs1 @ gs2) st =
     (case load_profiles lib fs nodes_region weather_year gs1 st of
        Inl e \<Rightarrow> Inl e
      | Inr st' \<Rightarrow> load_profiles lib fs nodes_region weather_year gs2 st')"
  by (induction gs1 arbitrary: st) (auto split: sum.splits)

subsection \<open>Month slices\<close>

text \<open>
  Claim C7, as amended. For a weather year from 1 to 9999, \<open>time_slice_handler\<close> given
  exactly twelve records tagged with the month codes M1 to M12 returns an
  hourly-resolution series that starts on the first of January of the weather year and
  spans the whole year, in which every hour belonging to month \<open>m\<close> equals the value of
  the record tagged with the code of \<open>m\<close>; when the number of records differs from
  twelve, it logs a warning and returns no series.
\<close>

theorem time_slice_handler_broadcasts_months:
  assumes "1 \<le> weather_year" and "weather_year \<le> 9999"
  shows "(length property_data \<noteq> 12 \<longrightarrow>
            time_slice_handler weather_year variable_name property_data =
              Inr (None, [PartialTimeSlices])) \<and>
         (length property_data = 12 \<and>
          (\<forall>m\<in>{1..12}. \<exists>r\<in>set property_data. slice_text r = ''M'' @ string_of_int m) \<longrightarrow>
            (\<exists>ts. time_slice_handler weather_year variable_name property_data =
                    Inr (Some ts, []) \<and>
                  ts_variable_name ts = variable_name \<and>
                  ts_initial_time ts = (weather_year, 1, 1) \<and>
                  ts_resolution_hours ts = 1 \<and>
                  length (ts_data ts) = length (hour_months weather_year) \<and>
                  length (ts_data ts) = 24 * (if is_leap_year weather_year then 366 else 365) \<and>
                  (\<forall>i<length (ts_data ts).
                     (\<exists>r\<in>set property_data.
                        slice_text r = ''M'' @ string_of_int (hour_months weather_year ! i) \<and>
                        ts_data ts ! i = slice_value r) \<and>
                     (\<forall>r\<in>set property_data.
                        slice_text r = ''M'' @ string_of_int (hour_months weather_year ! i) \<longrightarrow>
                        ts_data ts ! i = slice_value r))))"
proof (intro conjI impI)
  assume "length property_data \<noteq> 12"
  with assms show "time_slice_handler weather_year variable_name property_data =
              Inr (None, [PartialTimeSlices])"
    by (simp add: time_slice_handler_def Let_def)
next
  assume h: "length property_data = 12 \<and>
          (\<forall>m\<in>{1..12}. \<exists>r\<in>set property_data. slice_text r = ''M'' @ string_of_int m)"
  let ?months = "hour_months weather_year"
  let ?f = "\<lambda>m::int. ''M'' @ string_of_int m"
  define mo where
    "mo r = (case py_int (py_strip ''M'' (slice_text r)) of Inr m \<Rightarrow> m | Inl e \<Rightarrow> 0)"
    for r :: slice_record
  from h month_codes_exact [of property_data] have
    d: "distinct (map slice_text property_data)"
    and codes: "\<forall>r\<in>set property_data. \<exists>m\<in>{1..12}. slice_text r = ?f m"
    by simp_all
  have mo_code: "mo r = m" if "slice_text r = ?f m" and "m \<in> {1..12}" for r m
    using that by (simp add: mo_def month_code_parse_Cons)
  have parse: "\<forall>r\<in>set property_data. py_int (py_strip ''M'' (slice_text r)) = Inr (mo r)"
  proof
    fix r assume "r \<in> set property_data"
    with codes obtain m where m: "m \<in> {1..12}" "slice_text r = ?f m" by blast
    then show "py_int (py_strip ''M'' (slice_text r)) = Inr (mo r)"
      by (simp add: mo_def month_code_parse_Cons)
  qed
  have text_of: "slice_text r = ?f (mo r)" if "r \<in> set property_data" for r
  proof -
    from that codes obtain m where m: "m \<in> {1..12}" "slice_text r = ?f m" by blast
    with mo_code [of r m] show ?thesis by simp
  qed
  have dm: "distinct (map mo property_data)"
  proof -
    from d have dr: "distinct property_data" and inj: "inj_on slice_text (set property_data)"
      by (simp_all add: distinct_map)
    have "inj_on mo (set property_data)"
    proof (rule inj_onI)
      fix a b assume a: "a \<in> set property_data" and b: "b \<in> set property_data"
        and eq: "mo a = mo b"
      from text_of [OF a] text_of [OF b] eq have "slice_text a = slice_text b" by simp
      with inj a b show "a = b" by (simp add: inj_on_def)
    qed
    with dr show ?thesis by (simp add: distinct_map)
  qed
  have len0: "length (replicate (length ?months) (0::real)) = length ?months" by simp
  from fill_months_nth [OF parse dm len0] obtain series where
    f: "fill_months ?months property_data (replicate (length ?months) 0) = Inr series"
    and l: "length series = length ?months"
    and n: "\<forall>i<length ?months.
              (\<forall>r\<in>set property_data. mo r = ?months ! i \<longrightarrow> series ! i = slice_value r)"
    by blast
  let ?ts = "\<lparr>ts_data = series, ts_variable_name = variable_name,
              ts_initial_time = (weather_year, 1, 1), ts_resolution_hours = 1\<rparr>"
  have res: "time_slice_handler weather_year variable_name property_data = Inr (Some ?ts, [])"
    using assms h f by (simp add: time_slice_handler_def Let_def)
  have hours: "(\<exists>r\<in>set property_data.
                        slice_text r = ?f (?months ! i) \<and> series ! i = slice_value r) \<and>
               (\<forall>r\<in>set property_data.
                        slice_text r = ?f (?months ! i) \<longrightarrow> series ! i = slice_value r)"
    if i: "i < length series" for i
  proof -
    from i l have i': "i < length ?months" by simp
    then have range: "?months ! i \<in> {1..12}"
      using set_hour_months [of weather_year] nth_mem [OF i'] by blast
    have all: "\<forall>r\<in>set property_data.
                 slice_text r = ?f (?months ! i) \<longrightarrow> series ! i = slice_value r"
    proof (intro ballI impI)
      fix r assume r: "r \<in> set property_data" and t: "slice_text r = ?f (?months ! i)"
      from mo_code [OF t range] have "mo r = ?months ! i" .
      with n i' r show "series ! i = slice_value r" by blast
    qed
    from h range obtain r where "r \<in> set property_data" "slice_text r = ?f (?months ! i)"
      by blast
    with all show ?thesis by blast
  qed
  have "ts_variable_name ?ts = variable_name \<and>
        ts_initial_time ?ts = (weather_year, 1, 1) \<and>
        ts_resolution_hours ?ts = 1 \<and>
        length (ts_data ?ts) = length ?months \<and>
        length (ts_data ?ts) = 24 * (if is_leap_year weather_year then 366 else 365)"
    using l length_hour_months [of weather_year] by simp
  with res hours show "\<exists>ts. time_slice_handler weather_year variable_name property_data =
                    Inr (Some ts, []) \<and>
                  ts_variable_name ts = variable_name \<and>
                  ts_initial_time ts = (weather_year, 1, 1) \<and>
                  ts_resolution_hours ts = 1 \<and>
                  length (ts_data ts) = length (hour_months weather_year) \<and>
                  length (ts_data ts) = 24 * (if is_leap_year weather_year then 366 else 365) \<and>
                  (\<forall>i<length (ts_data ts).
                     (\<exists>r\<in>set property_data.
                        slice_text r = ''M'' @ string_of_int (hour_months weather_year ! i) \<and>
                        ts_data ts ! i = slice_value r) \<and>
                     (\<forall>r\<in>set property_data.
                        slice_text r = ''M'' @ string_of_int (hour_months weather_year ! i) \<longrightarrow>
                        ts_data ts ! i = slice_value r))"
    by (intro exI [of _ ?ts]) simp
qed

theorem time_slice_handler_broadcasts_months_witness:
  "\<exists>ts. time_slice_handler 2012 ''Load'' month_records = Inr (Some ts, []) \<and>
        length (ts_data ts) = 8784 \<and> ts_data ts ! 0 = 100 \<and> ts_data ts ! 744 = 200"
proof -
  have y: "(1::int) \<le> 2012" "(2012::int) \<le> 9999" by simp_all
  have l: "length month_records = 12" by (simp add: month_records_def)
  from time_slice_handler_broadcasts_months [OF y, of month_records "''Load''"] l
    month_records_cover
  obtain ts where r: "time_slice_handler 2012 ''Load'' month_records = Inr (Some ts, [])"
    and n: "length (ts_data ts) = 24 * (if is_leap_year 2012 then 366 else 365)"
    and h: "\<forall>i<length (ts_data ts).
              (\<exists>r\<in>set month_records.
                 slice_text r = ''M'' @ string_of_int (hour_months 2012 ! i) \<and>
                 ts_data ts ! i = slice_value r)"
    by auto
  from n have len: "length (ts_data ts) = 8784" by (simp add: is_leap_year_def)
  from h len have "\<exists>r\<in>set month_records.
      slice_text r = ''M'' @ string_of_int (hour_months 2012 ! 0) \<and> ts_data ts ! 0 = slice_value r"
    by simp
  then have a: "ts_data ts ! 0 = 100"
    using month_records_values hour_months_first
    by (auto simp: string_of_int_def string_of_nat.simps digit_char_def)
  from h len have "\<exists>r\<in>set month_records.
      slice_text r = ''M'' @ string_of_int (hour_months 2012 ! 744) \<and>
      ts_data ts ! 744 = slice_value r"
    by simp
  then have b: "ts_data ts ! 744 = 200"
    using month_records_values hour_months_first
    by (auto simp: string_of_int_def string_of_nat.simps digit_char_def)
  from r len a b show ?thesis by blast
qed

text \<open>
  Claim C7 as stated fails for the build, which does not hand the rows of a region to
  \<open>time_slice_handler\<close>: for the twelve
  rows of region R1 tagged M1 to M12, \<open>construct_load_profiles\<close> reads the first month
  code as the path of a file, finds no file and attaches no series.
\<close>

theorem load_profiles_month_codes_counterexample:
  "construct_load_profiles example_units no_files one_node id 2 1 2012
     (Some [''Scenario A'']) month_rows
     (\<lparr>components = [(''ACBus'', [(''name'', VStr ''N1'')])], attached_series = []\<rparr>, []) =
   Inr (\<lparr>components = [(''ACBus'', [(''name'', VStr ''N1'')])], attached_series = []\<rparr>,
        [MoreThanOneRow, FileNotFound])"
proof -
  have "csv_file_handler no_files 2012 ''max_active_power'' month_rows =
          Inr (None, [MoreThanOneRow, FileNotFound])"
    by (simp add: csv_file_handler_def no_files_def month_rows_def region_row_def)
  then show ?thesis
    by (simp add: construct_load_profiles_def month_rows_resolved month_rows_groups)
qed

subsection \<open>Missing files\<close>

text \<open>
  The handler reads the text of the first row only: the rows after it matter through
  their number alone.
\<close>

lemma csv_file_handler_first_row:
  assumes "others \<noteq> []" and "others' \<noteq> []"
  shows "csv_file_handler fs weather_year variable_name (r # others) =
         csv_file_handler fs weather_year variable_name (r # others')"
  using assms by (simp add: csv_file_handler_def)

text \<open>
  Claim C8, as amended. When the text of the first row of a region names a file that
  does not exist, \<open>csv_file_handler\<close> logs a warning and returns no series without
  raising; the loop of \<open>construct_load_profiles\<close> leaves the system as it was for that
  region, and the system that the loop builds over all regions is the one it builds
  without that region.
\<close>

theorem missing_file_skips_region:
  assumes "region_data = r # others"
    and "text_col r = Some fpath_text"
    and "read_csv fs fpath_text = FileNotFoundError"
  shows "csv_file_handler fs weather_year variable_name region_data =
           Inr (None, (if others \<noteq> [] then [MoreThanOneRow] else []) @ [FileNotFound]) \<and>
         load_profile lib fs nodes_region weather_year (region, region_data) st =
           Inr (fst st, snd st @ (if others \<noteq> [] then [MoreThanOneRow] else []) @
                  [FileNotFound]) \<and>
         map_sum id fst (load_profiles lib fs nodes_region weather_year
                           (before @ (region, region_data) # after) st) =
         map_sum id fst (load_profiles lib fs nodes_region weather_year (before @ after) st)"
proof -
  let ?ws = "(if others \<noteq> [] then [MoreThanOneRow] else []) @ [FileNotFound]"
  have c: "csv_file_handler fs weather_year v region_data = Inr (None, ?ws)" for v
    using assms by (simp add: csv_file_handler_def)
  have p: "load_profile lib fs nodes_region weather_year (region, region_data) s =
             Inr (fst s, snd s @ ?ws)" for s
    using c [of "''max_active_power''"] by simp
  have "map_sum id fst (load_profiles lib fs nodes_region weather_year
                           (before @ (region, region_data) # after) st) =
         map_sum id fst (load_profiles lib fs nodes_region weather_year (before @ after) st)"
  proof (cases "load_profiles lib fs nodes_region weather_year before st")
    case (Inl e)
    then show ?thesis by (simp add: load_profiles_append)
  next
    case (Inr st')
    then show ?thesis
      using p [of st']
        load_profiles_system_log [of lib fs nodes_region weather_year after "fst st'"
          "snd st' @ ?ws" "snd st'"]
      by (simp add: load_profiles_append)
  qed
  with c p show ?thesis by simp
qed

theorem missing_file_skips_region_witness:
  "csv_file_handler no_files 2012 ''max_active_power''
     [region_row 7 ''R1'' (Some ''Load'') (Some 0) (Some ''data/load.csv'') None] =
     Inr (None, [FileNotFound]) \<and>
   load_profile example_units no_files one_node 2012
     (''R1'', [region_row 7 ''R1'' (Some ''Load'') (Some 0) (Some ''data/load.csv'') None])
     (\<lparr>components = [(''ACBus'', [(''name'', VStr ''N1'')])], attached_series = []\<rparr>, []) =
     Inr (\<lparr>components = [(''ACBus'', [(''name'', VStr ''N1'')])], attached_series = []\<rparr>,
          [FileNotFound])"
proof -
  let ?r = "region_row 7 ''R1'' (Some ''Load'') (Some 0) (Some ''data/load.csv'') None"
  have a: "[?r] = ?r # []" by simp
  have t: "text_col ?r = Some ''data/load.csv''" by (simp add: region_row_def)
  have f: "read_csv no_files ''data/load.csv'' = FileNotFoundError" by (simp add: no_files_def)
  from missing_file_skips_region [OF a t f, of 2012 "''max_active_power''" example_units
      one_node "''R1''"
      "(\<lparr>components = [(''ACBus'', [(''name'', VStr ''N1'')])], attached_series = []\<rparr>, [])"]
  show ?thesis by simp
qed

text \<open>
  Claim C8 as stated fails for a property that is not the first row of its region. With
  the file of Load present and the file of Other missing: when the row of Other comes
  second, the handler returns the series of Load and logs no warning for the missing
  file; when it comes first, the region gets no load and no series, although the row of
  Load alone gives both.
\<close>

theorem missing_file_of_later_row_counterexample:
  "csv_file_handler load_file_only 2012 ''max_active_power''
     [region_row 7 ''R1'' (Some ''Load'') (Some 0) (Some ''data/load.csv'') None,
      region_row 7 ''R1'' (Some ''Other'') (Some 0) (Some ''data/missing.csv'') None] =
     Inr (Some \<lparr>ts_data = [30, 40], ts_variable_name = ''max_active_power'',
                ts_initial_time = (2012, 1, 1), ts_resolution_hours = 1\<rparr>,
          [MoreThanOneRow]) \<and>
   load_profile example_units load_file_only one_node 2012
     (''R1'', [region_row 7 ''R1'' (Some ''Other'') (Some 0) (Some ''data/missing.csv'') None,
              region_row 7 ''R1'' (Some ''Load'') (Some 0) (Some ''data/load.csv'') None])
     (\<lparr>components = [(''ACBus'', [(''name'', VStr ''N1'')])], attached_series = []\<rparr>, []) =
     Inr (\<lparr>components = [(''ACBus'', [(''name'', VStr ''N1'')])], attached_series = []\<rparr>,
          [MoreThanOneRow, FileNotFound]) \<and>
   load_profile example_units load_file_only one_node 2012
     (''R1'', [region_row 7 ''R1'' (Some ''Load'') (Some 0) (Some ''data/load.csv'') None])
     (\<lparr>components = [(''ACBus'', [(''name'', VStr ''N1'')])], attached_series = []\<rparr>, []) =
     Inr (\<lparr>components =
             [(''ACBus'', [(''name'', VStr ''N1'')]),
              (''PowerLoad'', [(''name'', VStr ''N1''), (''bus'', VStr ''N1''),
                               (''max_active_power'', VQty 40 ''MW'')])],
           attached_series =
             [(''N1'', \<lparr>ts_data = [30, 40], ts_variable_name = ''max_active_power'',
                        ts_initial_time = (2012, 1, 1), ts_resolution_hours = 1\<rparr>, 2012)]\<rparr>,
          [])"
  by (simp add: csv_file_handler_def load_file_only_def region_row_def one_node_def
        get_component_def add_component_def add_time_series_def example_units_def)

end
